theory Spec2Isabelle
  imports Main "HOL-Library.Sublist"
begin

unbundle bit_operations_syntax

section \<open>Strings of the host language\<close>

text \<open>
  A JavaScript string is modelled as a \<^typ>\<open>string\<close>, one \<^typ>\<open>char\<close> per code unit.
  All the characters that the query singleton treats specially are ASCII.
\<close>

abbreviation bslash :: char where "bslash \<equiv> CHR 0x5C"
abbreviation squote :: char where "squote \<equiv> CHR 0x27"
abbreviation dquote :: char where "dquote \<equiv> CHR 0x22"
abbreviation btick :: char where "btick \<equiv> CHR 0x60"
abbreviation newline :: char where "newline \<equiv> CHR 0x0A"

text \<open>\<^verbatim>\<open>Array.prototype.join\<close> on an array of strings.\<close>

fun join :: "string \<Rightarrow> string list \<Rightarrow> string" where
  "join sep [] = []"
| "join sep [x] = x"
| "join sep (x # y # ys) = x @ sep @ join sep (y # ys)"

text \<open>
  \<^verbatim>\<open>string.replace(/c/g, rep)\<close> for a pattern matching the single character \<open>c\<close> and
  a replacement text without \<^verbatim>\<open>$\<close> patterns: every occurrence of \<open>c\<close> is replaced, in
  one left-to-right pass over the input.
\<close>

definition replace_g :: "char \<Rightarrow> string \<Rightarrow> string \<Rightarrow> string" where
  "replace_g c rep s = concat (map (\<lambda>x. if x = c then rep else [x]) s)"

section \<open>Escaping\<close>

text \<open>
  \<^verbatim>\<open>escapeString (string) {
    return string.replace(/\\/g, "\\\\").replace(/'/g, "\\'").replace(/"/g, "\\\"");
  }\<close>
\<close>

definition escapeString :: "string \<Rightarrow> string" where
  "escapeString s =
     replace_g dquote [bslash, dquote]
       (replace_g squote [bslash, squote]
         (replace_g bslash [bslash, bslash] s))"

text \<open>
  \<^verbatim>\<open>escapeLikeString (string) {
    return this.escapeString(string).replace(/%/g, "\\%").replace(/_/g, "\\_");
  }\<close>
\<close>

definition escapeLikeString :: "string \<Rightarrow> string" where
  "escapeLikeString s =
     replace_g (CHR ''_'') [bslash, CHR ''_'']
       (replace_g (CHR ''%'') [bslash, CHR ''%''] (escapeString s))"

text \<open>
  \<^verbatim>\<open>escapeIdentifier (string) {
    if (typeof string === "string" && string.includes("chatrooms")) {
      string = "`" + string + "`"
    }
    return string;
  }\<close>
  The argument is a string at both call sites of this file, so the \<^verbatim>\<open>typeof\<close> test
  is carried by the type. \<^verbatim>\<open>includes\<close> is the test for a contiguous substring.
\<close>

definition escapeIdentifier :: "string \<Rightarrow> string" where
  "escapeIdentifier s =
     (if sublist ''chatrooms'' s then [btick] @ s @ [btick] else s)"

subsection \<open>The string literals of the target engine\<close>

text \<open>
  The reader of single-quoted literals of the MariaDB/MySQL dialect in its default mode
  (backslash escapes enabled). It is not part of the repository: it is the reference
  against which the escaping is judged. Inside a literal, a backslash followed by one of
  \<^verbatim>\<open>0 b n r t Z\<close> denotes a control character, a backslash followed by \<^verbatim>\<open>%\<close> or
  \<^verbatim>\<open>_\<close> denotes both characters (they are kept for a later pattern match), and a
  backslash followed by any other character denotes that character. Two adjacent single
  quotes denote one, and a single quote alone closes the literal.
\<close>

definition unescape_char :: "char \<Rightarrow> string" where
  "unescape_char c =
     (if c = CHR ''0'' then [CHR 0x00]
      else if c = CHR ''b'' then [CHR 0x08]
      else if c = CHR ''n'' then [CHR 0x0A]
      else if c = CHR ''r'' then [CHR 0x0D]
      else if c = CHR ''t'' then [CHR 0x09]
      else if c = CHR ''Z'' then [CHR 0x1A]
      else if c = CHR ''%'' \<or> c = CHR ''_'' then [bslash, c]
      else [c])"

text \<open>
  \<open>literal_body\<close> reads the text after the opening quote. It yields the denoted string
  when the closing quote is the last character of the input, and nothing when the literal
  is not closed or the input goes on after it.
\<close>

fun literal_body :: "string \<Rightarrow> string option" where
  "literal_body [] = None"
| "literal_body [c] = (if c = squote then Some [] else None)"
| "literal_body (c # d # cs) =
     (if c = bslash then map_option (\<lambda>r. unescape_char d @ r) (literal_body cs)
      else if c = squote then
        (if d = squote then map_option (\<lambda>r. squote # r) (literal_body cs) else None)
      else map_option (\<lambda>r. c # r) (literal_body (d # cs)))"

definition parse_literal :: "string \<Rightarrow> string option" where
  "parse_literal s =
     (case s of [] \<Rightarrow> None
      | q # body \<Rightarrow> if q = squote then literal_body body else None)"

text \<open>The escaping of one character, as the claim about \<open>escapeString\<close> words it.\<close>

definition esc_char :: "char \<Rightarrow> string" where
  "esc_char c = (if c = bslash \<or> c = squote \<or> c = dquote then [bslash, c] else [c])"

definition esc_like_char :: "char \<Rightarrow> string" where
  "esc_like_char c =
     (if c = bslash \<or> c = squote \<or> c = dquote \<or> c = CHR ''%'' \<or> c = CHR ''_''
      then [bslash, c] else [c])"

section \<open>Host values\<close>

text \<open>
  The values that reach the converter and the substitutor: the primitives, arrays, native
  dates, instances of \<^verbatim>\<open>sb.Date\<close>, and any other object. Numbers are kept abstract
  (type \<open>'n\<close>); a date carries its time value, which is a number. \<open>JObject s\<close> is an
  object that is neither an array nor a date, with the text \<open>s\<close> its conversion to a
  string gives. Values whose conversion to a string raises (symbols, objects without a
  prototype) are outside the model.
\<close>

datatype 'n jsvalue =
    JUndefined
  | JNull
  | JBool bool
  | JNumber 'n
  | JString string
  | JArray "'n jsvalue list"
  | JDate 'n
  | JSbDate 'n
  | JObject string

text \<open>
  What the file takes from outside: how the host prints a number and a date, and the
  three formatting methods of \<^verbatim>\<open>sb.Date\<close> (\<^verbatim>\<open>sqlDate\<close>, \<^verbatim>\<open>sqlDateTime\<close>,
  \<^verbatim>\<open>sqlTime\<close>), whose class is not among the sources. They are parameters.
\<close>

record 'n host =
  numberToString :: "'n \<Rightarrow> string"
  dateToString :: "'n \<Rightarrow> string"
  sbDateToString :: "'n \<Rightarrow> string"
  sqlDate :: "'n \<Rightarrow> string"
  sqlDateTime :: "'n \<Rightarrow> string"
  sqlTime :: "'n \<Rightarrow> string"

text \<open>
  The conversion to a string that \<^verbatim>\<open>"..." + param\<close> and \<^verbatim>\<open>String(param)\<close> perform.
  An array prints its elements separated by commas, \<^verbatim>\<open>null\<close> and \<^verbatim>\<open>undefined\<close>
  elements as the empty string.
\<close>

fun ToString :: "'n host \<Rightarrow> 'n jsvalue \<Rightarrow> string" where
  "ToString h JUndefined = ''undefined''"
| "ToString h JNull = ''null''"
| "ToString h (JBool b) = (if b then ''true'' else ''false'')"
| "ToString h (JNumber n) = numberToString h n"
| "ToString h (JString s) = s"
| "ToString h (JArray xs) =
     join '','' (map (\<lambda>x. if x = JUndefined \<or> x = JNull then [] else ToString h x) xs)"
| "ToString h (JDate t) = dateToString h t"
| "ToString h (JSbDate t) = sbDateToString h t"
| "ToString h (JObject s) = s"

text \<open>\<^verbatim>\<open>array.join(sep)\<close> on an array of arbitrary values.\<close>

definition array_join :: "'n host \<Rightarrow> string \<Rightarrow> 'n jsvalue list \<Rightarrow> string" where
  "array_join h sep xs =
     join sep (map (\<lambda>x. if x = JUndefined \<or> x = JNull then [] else ToString h x) xs)"

text \<open>
  Errors are values. \<open>SbError message args\<close> is \<^verbatim>\<open>new sb.Error({ message, args })\<close>,
  \<open>HostError\<close> is an error that the host raises by itself (a \<^verbatim>\<open>TypeError\<close> for a
  method call or a property access that a value does not allow, a \<^verbatim>\<open>RangeError\<close> for
  an invalid array length), \<open>DriverError\<close> is a rejection coming from the database driver.
\<close>

datatype host_error = TypeError | RangeError

datatype 'n error =
    SbError string "'n jsvalue option"
  | HostError host_error
  | DriverError string

text \<open>
  Modelled from the spec: the constructor of \<^verbatim>\<open>sb.Date\<close> applied to a date, whose class
  is not among the sources. Section 4.2 has the converter accept ``a generic calendar-date
  input by first normalizing it'': the result is the structured value for the same point
  in time.
\<close>

definition new_sbDate :: "'n \<Rightarrow> 'n jsvalue" where
  "new_sbDate t = JSbDate t"

section \<open>The value converter\<close>

text \<open>
  \<^verbatim>\<open>convertToSQL (value, targetType)\<close>. The branches are in the order of the source:
  \<^verbatim>\<open>null\<close>; the target \<^verbatim>\<open>TINY\<close>; the target \<^verbatim>\<open>SET\<close> with an array; the four temporal
  targets, where a value that is an \<^verbatim>\<open>instanceof Date\<close> (a native date or an
  \<^verbatim>\<open>sb.Date\<close>, which extends it) is first passed to \<^verbatim>\<open>new sb.Date\<close>; strings; and
  anything else, which is returned as it is.
\<close>

definition temporal :: "string \<Rightarrow> bool" where
  "temporal targetType =
     (targetType = ''TIME'' \<or> targetType = ''DATE''
      \<or> targetType = ''DATETIME'' \<or> targetType = ''TIMESTAMP'')"

definition isArray :: "'n jsvalue \<Rightarrow> bool" where
  "isArray v = (case v of JArray xs \<Rightarrow> True | _ \<Rightarrow> False)"

definition convertToSQL :: "'n host \<Rightarrow> 'n jsvalue \<Rightarrow> string \<Rightarrow> 'n error + 'n jsvalue" where
  "convertToSQL h val targetType =
     (if val = JNull then Inr (JString ''NULL'')
      else if targetType = ''TINY'' then
        (case val of
           JBool b \<Rightarrow> Inr (JString (if b then ''1'' else ''0''))
         | _ \<Rightarrow> Inl (SbError ''Expected value type: boolean'' (Some val)))
      else if targetType = ''SET'' \<and> isArray val then
        (case val of
           JArray xs \<Rightarrow> Inr (JString ([squote] @ escapeString (array_join h '','' xs) @ [squote]))
         | _ \<Rightarrow> Inr val)
      else if temporal targetType then
        (let val' = (case val of JDate t \<Rightarrow> new_sbDate t | JSbDate t \<Rightarrow> new_sbDate t | _ \<Rightarrow> val)
         in case val' of
              JSbDate t \<Rightarrow>
                (if targetType = ''TIME'' then Inr (JString ([squote] @ sqlTime h t @ [squote]))
                 else if targetType = ''DATE'' then Inr (JString ([squote] @ sqlDate h t @ [squote]))
                 else Inr (JString ([squote] @ sqlDateTime h t @ [squote])))
            | _ \<Rightarrow> Inl (SbError ''Expected value type: date'' (Some val')))
      else
        (case val of
           JString s \<Rightarrow> Inr (JString ([squote] @ escapeString s @ [squote]))
         | _ \<Rightarrow> Inr val))"

section \<open>The format-symbol substitutor\<close>

text \<open>
  The normalisation that opens the three temporal cases of \<^verbatim>\<open>parseFormatSymbol\<close>:
  \<^verbatim>\<open>if (param instanceof Date && !(param instanceof sb.Date)) param = new sb.Date(param)\<close>.
\<close>

definition normalize_date :: "'n jsvalue \<Rightarrow> 'n jsvalue" where
  "normalize_date param = (case param of JDate t \<Rightarrow> new_sbDate t | _ \<Rightarrow> param)"

text \<open>
  \<^verbatim>\<open>param.map(i => this.escapeString(i))\<close>: \<^verbatim>\<open>escapeString\<close> calls \<^verbatim>\<open>replace\<close> on its
  argument, which only a string has; the first element that is not a string raises the
  host's \<^verbatim>\<open>TypeError\<close>.
\<close>

fun escape_elements :: "'n jsvalue list \<Rightarrow> 'n error + string list" where
  "escape_elements [] = Inr []"
| "escape_elements (x # xs) =
     (case x of
        JString s \<Rightarrow>
          (case escape_elements xs of Inl e \<Rightarrow> Inl e | Inr r \<Rightarrow> Inr (escapeString s # r))
      | _ \<Rightarrow> Inl (HostError TypeError))"

definition expected_got :: "'n host \<Rightarrow> string \<Rightarrow> 'n jsvalue \<Rightarrow> 'n error" where
  "expected_got h kind param = SbError (''Expected '' @ kind @ '', got '' @ ToString h param) None"

text \<open>
  \<^verbatim>\<open>parseFormatSymbol (type, param)\<close>: one branch for each \<^verbatim>\<open>case\<close> of the
  \<^verbatim>\<open>switch\<close>, the last for its \<^verbatim>\<open>default\<close>. The function takes no connection and
  returns no promise: it is a computation on its two arguments.
\<close>

definition parseFormatSymbol :: "'n host \<Rightarrow> string \<Rightarrow> 'n jsvalue \<Rightarrow> 'n error + string" where
  "parseFormatSymbol h type param =
     (if type = ''b'' then
        (case param of
           JBool b \<Rightarrow> Inr (if b then ''1'' else ''0'')
         | _ \<Rightarrow> Inl (expected_got h ''boolean'' param))
      else if type = ''d'' then
        (case normalize_date param of
           JSbDate t \<Rightarrow> Inr ([squote] @ sqlDate h t @ [squote])
         | p \<Rightarrow> Inl (expected_got h ''sb.Date'' p))
      else if type = ''dt'' then
        (case normalize_date param of
           JSbDate t \<Rightarrow> Inr ([squote] @ sqlDateTime h t @ [squote])
         | p \<Rightarrow> Inl (expected_got h ''sb.Date'' p))
      else if type = ''n'' then
        (case param of
           JNumber n \<Rightarrow> Inr (ToString h param)
         | _ \<Rightarrow> Inl (expected_got h ''number'' param))
      else if type = ''s'' then
        (case param of
           JString s \<Rightarrow> Inr ([squote] @ escapeString s @ [squote])
         | _ \<Rightarrow> Inl (expected_got h ''string'' param))
      else if type = ''t'' then
        (case normalize_date param of
           JSbDate t \<Rightarrow> Inr (sqlTime h t)
         | p \<Rightarrow> Inl (expected_got h ''sb.Date'' p))
      else if type = ''s+'' then
        (case param of
           JArray xs \<Rightarrow>
             (case escape_elements xs of
                Inl e \<Rightarrow> Inl e
              | Inr es \<Rightarrow> Inr (''('' @ join '','' (map (\<lambda>i. [squote] @ i @ [squote]) es) @ '')''))
         | _ \<Rightarrow> Inl (expected_got h ''Array'' param))
      else if type = ''n+'' then
        (case param of
           JArray xs \<Rightarrow> Inr (''('' @ array_join h '','' xs @ '')'')
         | _ \<Rightarrow> Inl (expected_got h ''Array'' param))
      else if type = ''*like*'' then
        (case param of
           JString s \<Rightarrow> Inr ('' LIKE '' @ [squote] @ ''%'' @ escapeLikeString s @ ''%'' @ [squote])
         | _ \<Rightarrow> Inl (expected_got h ''string'' param))
      else Inl (SbError ''Unknown Recordset replace parameter'' (Some (JString type))))"

section \<open>The database driver\<close>

text \<open>
  The pool and its connections belong to the driver package. A run of the program is
  recorded as the list of the calls it makes on the driver, oldest first; connections are
  numbered. \<open>BeginTransaction c\<close>, \<open>Query c text\<close>, \<open>Commit c\<close>, \<open>Rollback c\<close> and
  \<open>End c\<close> are the methods of connection \<open>c\<close>; on a pooled connection \<^verbatim>\<open>end()\<close> gives
  the connection back to the pool.
\<close>

datatype call =
    GetConnection
  | BeginTransaction nat
  | Query nat string
  | Commit nat
  | Rollback nat
  | End nat

text \<open>
  Of a result the file reads only \<^verbatim>\<open>meta\<close>, the description of the columns: for each
  column \<^verbatim>\<open>name()\<close>, \<^verbatim>\<open>type\<close> and the bit field \<^verbatim>\<open>flags\<close>.
\<close>

record column =
  c_name :: string
  c_type :: string
  c_flags :: nat

record result =
  meta :: "column list"

text \<open>
  The driver is any deterministic environment: each answer may depend on all the calls
  made before it and on the arguments of the call. A rejected promise is \<open>Inl\<close> of the
  driver's message (\<open>Some\<close> message for the calls that yield no value). The promise of
  \<^verbatim>\<open>beginTransaction\<close> is never read by the program, so the driver needs no answer to it.
\<close>

record driver =
  on_getConnection :: "call list \<Rightarrow> string + nat"
  on_query :: "call list \<Rightarrow> nat \<Rightarrow> string \<Rightarrow> string + result"
  on_commit :: "call list \<Rightarrow> nat \<Rightarrow> string option"
  on_rollback :: "call list \<Rightarrow> nat \<Rightarrow> string option"
  on_end :: "call list \<Rightarrow> nat \<Rightarrow> string option"

section \<open>The query engine\<close>

definition updateBatchLimit :: nat where
  "updateBatchLimit = 1000"

text \<open>
  \<^verbatim>\<open>async raw (...args) {
    const query = args.join("\n");
    const connector = await this.pool.getConnection();
    const result = connector.query({ sql: query, multipleStatements: true });
    await connector.end();
    return result;
  }\<close>
  \<^verbatim>\<open>connector.query\<close> returns a promise that is not awaited where it is made: whether it
  is fulfilled or rejected shows only at \<^verbatim>\<open>return result\<close>, after \<^verbatim>\<open>connector.end()\<close>
  has been called and awaited. A rejection of \<^verbatim>\<open>getConnection\<close> or of \<^verbatim>\<open>end\<close> is
  thrown at its \<^verbatim>\<open>await\<close>.
\<close>

definition raw :: "driver \<Rightarrow> string list \<Rightarrow> call list \<Rightarrow> ('n error + result) \<times> call list" where
  "raw drv args tr =
     (let query = join [newline] args in
      case on_getConnection drv tr of
        Inl m \<Rightarrow> (Inl (DriverError m), tr @ [GetConnection])
      | Inr connector \<Rightarrow>
          (let tr1 = tr @ [GetConnection];
               result = on_query drv tr1 connector query;
               tr2 = tr1 @ [Query connector query]
           in case on_end drv tr2 connector of
                Some m \<Rightarrow> (Inl (DriverError m), tr2 @ [End connector])
              | None \<Rightarrow>
                  (case result of Inl m \<Rightarrow> Inl (DriverError m) | Inr r \<Rightarrow> Inr r,
                   tr2 @ [End connector])))"

text \<open>
  \<^verbatim>\<open>async getTransaction () {
    const connector = await this.pool.getConnection();
    connector.beginTransaction();
    return connector;
  }\<close>
\<close>

definition getTransaction :: "driver \<Rightarrow> call list \<Rightarrow> ('n error + nat) \<times> call list" where
  "getTransaction drv tr =
     (case on_getConnection drv tr of
        Inl m \<Rightarrow> (Inl (DriverError m), tr @ [GetConnection])
      | Inr connector \<Rightarrow> (Inr connector, tr @ [GetConnection, BeginTransaction connector]))"

text \<open>\<^verbatim>\<open>array.slice(a, b)\<close> for indices \<open>0 \<le> a\<close> and \<open>0 \<le> b\<close>.\<close>

definition slice :: "'a list \<Rightarrow> nat \<Rightarrow> nat \<Rightarrow> 'a list" where
  "slice xs a b = take (b - a) (drop a xs)"

text \<open>
  The first statement of \<^verbatim>\<open>batchUpdate\<close> renders one update statement per row:
  \<^verbatim>\<open>const queries = await Promise.all(data.map(async row => {
    const ru = new RecordUpdater(this);
    callback(ru, row);
    const sql = await ru.toSQL();
    return sql.join(" ") + ";";
  }));\<close>
  The update builder is not among the sources. \<open>render row\<close> stands for the configuration
  of a fresh builder by the callback followed by \<^verbatim>\<open>toSQL\<close>: the list of the fragments
  of the statement, or the error raised on the way. If a row fails to render, the whole
  call is rejected before any chunk is run.
  When several rows fail, the model reports the error of the first
  of them in the list, where the host reports the rejection that happens first.
\<close>

fun render_all :: "('row \<Rightarrow> 'n error + string list) \<Rightarrow> 'row list \<Rightarrow> 'n error + string list" where
  "render_all render [] = Inr []"
| "render_all render (row # rows) =
     (case render row of
        Inl e \<Rightarrow> Inl e
      | Inr sql \<Rightarrow>
          (case render_all render rows of
             Inl e \<Rightarrow> Inl e
           | Inr qs \<Rightarrow> Inr ((join '' '' sql @ '';'') # qs)))"

text \<open>
  The \<^verbatim>\<open>catch\<close> block of the loop: \<^verbatim>\<open>await transaction.rollback()\<close>. Its own rejection
  is not caught. The first component is the error that leaves the loop body, if any.
\<close>

definition rollback_chunk :: "driver \<Rightarrow> nat \<Rightarrow> call list \<Rightarrow> 'n error option \<times> call list" where
  "rollback_chunk drv transaction tr =
     (case on_rollback drv tr transaction of
        None \<Rightarrow> (None, tr @ [Rollback transaction])
      | Some m \<Rightarrow> (Some (DriverError m), tr @ [Rollback transaction]))"

text \<open>
  The body of the loop, for the chunk \<open>chunk\<close>:
  \<^verbatim>\<open>const transaction = await this.getTransaction();
  try {
    await transaction.query(slice.join("\n"));
    await transaction.commit();
  }
  catch {
    await transaction.rollback();
  }\<close>
\<close>

definition run_chunk :: "driver \<Rightarrow> string list \<Rightarrow> call list \<Rightarrow> 'n error option \<times> call list" where
  "run_chunk drv chunk tr =
     (case getTransaction drv tr of
        (Inl e, tr1) \<Rightarrow> (Some e, tr1)
      | (Inr transaction, tr1) \<Rightarrow>
          (let text = join [newline] chunk;
               tr2 = tr1 @ [Query transaction text]
           in case on_query drv tr1 transaction text of
                Inl m \<Rightarrow> rollback_chunk drv transaction tr2
              | Inr r \<Rightarrow>
                  (case on_commit drv tr2 transaction of
                     None \<Rightarrow> (None, tr2 @ [Commit transaction])
                   | Some m \<Rightarrow> rollback_chunk drv transaction (tr2 @ [Commit transaction]))))"

text \<open>
  \<^verbatim>\<open>for (let i = 0; i <= queries.length; i += updateBatchLimit) {
    const transaction = await this.getTransaction();
    const slice = queries.slice(i, i + updateBatchLimit);
    ...
  }\<close>
  The function has no \<^verbatim>\<open>return\<close>: when the loop ends, the call yields \<^verbatim>\<open>undefined\<close>,
  the one value of type \<^typ>\<open>unit\<close>.
\<close>

function batch_loop :: "driver \<Rightarrow> string list \<Rightarrow> nat \<Rightarrow> call list \<Rightarrow> ('n error + unit) \<times> call list" where
  "batch_loop drv queries i tr =
     (if i \<le> length queries then
        (case run_chunk drv (slice queries i (i + updateBatchLimit)) tr of
           (Some e, tr') \<Rightarrow> (Inl e, tr')
         | (None, tr') \<Rightarrow> batch_loop drv queries (i + updateBatchLimit) tr')
      else (Inr (), tr))"
  by pat_completeness auto
termination
  by (relation "measure (\<lambda>(drv, queries, i, tr). Suc (length queries) - i)")
     (auto simp: updateBatchLimit_def)

definition batchUpdate ::
  "driver \<Rightarrow> ('row \<Rightarrow> 'n error + string list) \<Rightarrow> 'row list \<Rightarrow> call list \<Rightarrow> ('n error + unit) \<times> call list" where
  "batchUpdate drv render data tr =
     (case render_all render data of
        Inl e \<Rightarrow> (Inl e, tr)
      | Inr queries \<Rightarrow> batch_loop drv queries 0 tr)"

text \<open>
  The chunks that the loop of \<^verbatim>\<open>batchUpdate\<close> forms when no error leaves its body: the
  same loop header, collecting \<^verbatim>\<open>queries.slice(i, i + updateBatchLimit)\<close>.
\<close>

function chunks_from :: "'a list \<Rightarrow> nat \<Rightarrow> 'a list list" where
  "chunks_from queries i =
     (if i \<le> length queries then
        slice queries i (i + updateBatchLimit) # chunks_from queries (i + updateBatchLimit)
      else [])"
  by pat_completeness auto
termination
  by (relation "measure (\<lambda>(queries, i). Suc (length queries) - i)")
     (auto simp: updateBatchLimit_def)

section \<open>Existence of a table\<close>

text \<open>
  Modelled from the spec: the row-set builder, whose class is not among the sources.
  Section 4.6 has it accumulate the selected columns, the source table with its schema
  qualifier, and the where predicates, each a condition template with its parameters;
  the predicates of one builder are conjoined.
\<close>

record 'n recordset =
  rs_select :: "string list"
  rs_from :: "(string \<times> string) option"
  rs_where :: "(string \<times> 'n jsvalue list) list"

text \<open>
  Modelled from the spec: the builder's constructor and its methods \<^verbatim>\<open>select\<close>,
  \<^verbatim>\<open>from\<close> and \<^verbatim>\<open>where\<close>, which are not among the sources. A fresh builder has no
  clause (section 3: a builder accumulates clauses before it is finalized), and each
  method records its arguments.
\<close>

definition new_Recordset :: "'n recordset" where
  "new_Recordset = \<lparr>rs_select = [], rs_from = None, rs_where = []\<rparr>"

definition rs_add_select :: "string \<Rightarrow> 'n recordset \<Rightarrow> 'n recordset" where
  "rs_add_select col rs = rs\<lparr>rs_select := rs_select rs @ [col]\<rparr>"

definition rs_set_from :: "string \<Rightarrow> string \<Rightarrow> 'n recordset \<Rightarrow> 'n recordset" where
  "rs_set_from database table rs = rs\<lparr>rs_from := Some (database, table)\<rparr>"

definition rs_add_where :: "string \<Rightarrow> 'n jsvalue list \<Rightarrow> 'n recordset \<Rightarrow> 'n recordset" where
  "rs_add_where template params rs = rs\<lparr>rs_where := rs_where rs @ [(template, params)]\<rparr>"

text \<open>
  \<^verbatim>\<open>async getRecordset (callback) {
    const rs = new Recordset(this);
    callback(rs);
    return await rs.fetch();
  }\<close>
  \<open>fetch\<close> is the builder's \<^verbatim>\<open>fetch\<close>, a parameter: it renders the statement, runs it
  and returns the rows of the result, or the error raised on the way.
\<close>

definition getRecordset ::
  "('n recordset \<Rightarrow> 'n error + 'r list) \<Rightarrow> ('n recordset \<Rightarrow> 'n recordset) \<Rightarrow> 'n error + 'r list" where
  "getRecordset fetch callback = fetch (callback new_Recordset)"

text \<open>
  \<^verbatim>\<open>async isTablePresent (database, table) {
    const exists = await this.getRecordset(rs => rs
      .select("1")
      .from("INFORMATION_SCHEMA", "TABLES")
      .where("TABLE_SCHEMA = %s", database)
      .where("TABLE_NAME = %s", table)
    );
    return (exists.length !== 0);
  }\<close>
\<close>

definition isTablePresent ::
  "('n recordset \<Rightarrow> 'n error + 'r list) \<Rightarrow> string \<Rightarrow> string \<Rightarrow> 'n error + bool" where
  "isTablePresent fetch database table =
     (case getRecordset fetch
             (\<lambda>rs. rs_add_where ''TABLE_NAME = %s'' [JString table]
                     (rs_add_where ''TABLE_SCHEMA = %s'' [JString database]
                       (rs_set_from ''INFORMATION_SCHEMA'' ''TABLES''
                         (rs_add_select ''1'' rs)))) of
        Inl e \<Rightarrow> Inl e
      | Inr exists \<Rightarrow> Inr (length exists \<noteq> 0))"

text \<open>
  The rows of an information schema, each a pair of \<^verbatim>\<open>TABLE_SCHEMA\<close> and
  \<^verbatim>\<open>TABLE_NAME\<close>, that match a schema name and a table name exactly.
\<close>

definition matching_rows :: "(string \<times> string) list \<Rightarrow> string \<Rightarrow> string \<Rightarrow> (string \<times> string) list" where
  "matching_rows tables database table = filter (\<lambda>(s, n). s = database \<and> n = table) tables"

text \<open>
  Modelled from the spec: what the builder's \<^verbatim>\<open>fetch\<close> returns for the statement of
  \<^verbatim>\<open>isTablePresent\<close>, run against the information schema \<open>tables\<close>. Section 4.6: the
  builder renders a \<^verbatim>\<open>SELECT\<close> and executes it; the statement selects the constant
  \<^verbatim>\<open>1\<close> once for each row that satisfies both predicates.
\<close>

definition information_schema_fetch ::
  "(string \<times> string) list \<Rightarrow> 'n recordset \<Rightarrow> 'n error + string list list" where
  "information_schema_fetch tables rs =
     (case rs_where rs of
        [(f1, [JString database]), (f2, [JString table])] \<Rightarrow>
          Inr (map (\<lambda>row. [''1'']) (matching_rows tables database table))
      | _ \<Rightarrow> Inl (DriverError ''statement not supported''))"

section \<open>The schema cache\<close>

text \<open>The \<^verbatim>\<open>ColumnDefinition\<close> and \<^verbatim>\<open>TableDefinition\<close> objects of the source.\<close>

record columnDefinition =
  cd_name :: string
  cd_type :: string
  notNull :: bool
  primaryKey :: bool
  unsigned :: bool

record tableDefinition =
  td_name :: string
  td_database :: string
  path :: string
  escapedPath :: string
  columns :: "columnDefinition list"

text \<open>
  \<^verbatim>\<open>this.tableDefinitions\<close> is an array that the code uses as a dictionary of
  dictionaries: \<^verbatim>\<open>this.tableDefinitions[database]\<close> is a plain object \<^verbatim>\<open>{}\<close> made by
  \<^verbatim>\<open>getDefinition\<close>, and \<^verbatim>\<open>this.tableDefinitions[database][table]\<close> is a definition,
  or \<^verbatim>\<open>null\<close> after \<^verbatim>\<open>invalidateDefinition\<close>. \<open>definitions\<close> holds these dictionaries
  and their entries, which are own properties: for the outer one no entry means that the
  array owns no dictionary under the name; in an inner one \<open>Some None\<close> is \<^verbatim>\<open>null\<close> and
  \<open>Some (Some d)\<close> is a definition.
\<close>

type_synonym definitions = "string \<rightharpoonup> (string \<rightharpoonup> tableDefinition option)"

text \<open>
  A property access in the host also sees what the array and the plain objects inherit
  (\<^verbatim>\<open>constructor\<close>, \<^verbatim>\<open>toString\<close>, ...), the array's own \<^verbatim>\<open>length\<close>, and the
  properties of the values found there. All of that belongs to the host: like the driver,
  it is a parameter. \<open>'h\<close> is the type of the values of the host (functions, prototype
  objects, numbers, strings), \<open>'w\<close> the state of its objects. An access is answered by the
  dictionaries above when they own the name, and by the realm otherwise:
  \<^item> \<open>truthy h\<close>: whether the value \<open>h\<close> counts as true;
  \<^item> \<open>array_get w database\<close>: what \<^verbatim>\<open>this.tableDefinitions[database]\<close> yields when the
    array owns no dictionary under \<open>database\<close> (nothing for \<^verbatim>\<open>undefined\<close>);
  \<^item> \<open>array_set_new w database\<close>: the assignment of a fresh \<^verbatim>\<open>{}\<close> under \<open>database\<close>,
    which the array accepts or raises on;
  \<^item> \<open>array_set_same w database h\<close>: the assignment of the value \<open>h\<close> just read under
    \<open>database\<close>;
  \<^item> \<open>object_get w database table\<close>: what the dictionary of \<open>database\<close> yields for a name
    that it does not own;
  \<^item> \<open>object_set w database table v\<close>: nothing when the assignment of \<open>v\<close> under a name that
    the dictionary does not own creates an own entry, and otherwise what the host does
    instead (a setter such as that of \<^verbatim>\<open>__proto__\<close>);
  \<^item> \<open>host_get w h table\<close> and \<open>host_set w h table v\<close>: reading and assigning a property of
    the host value \<open>h\<close>.
\<close>

datatype 'h found =
    Absent
  | NullValue
  | Definition tableDefinition
  | HostValue 'h

record ('h, 'w) realm =
  truthy :: "'h \<Rightarrow> bool"
  array_get :: "'w \<Rightarrow> string \<Rightarrow> 'h option"
  array_set_new :: "'w \<Rightarrow> string \<Rightarrow> host_error + 'w"
  array_set_same :: "'w \<Rightarrow> string \<Rightarrow> 'h \<Rightarrow> host_error + 'w"
  object_get :: "'w \<Rightarrow> string \<Rightarrow> string \<Rightarrow> 'h option"
  object_set :: "'w \<Rightarrow> string \<Rightarrow> string \<Rightarrow> tableDefinition option \<Rightarrow> (host_error + 'w) option"
  host_get :: "'w \<Rightarrow> 'h \<Rightarrow> string \<Rightarrow> host_error + 'h found"
  host_set :: "'w \<Rightarrow> 'h \<Rightarrow> string \<Rightarrow> tableDefinition option \<Rightarrow> host_error + 'w"

text \<open>The value of \<^verbatim>\<open>this.tableDefinitions[database]\<close>.\<close>

datatype 'h outer =
    NoOuter
  | OwnDictionary "string \<Rightarrow> tableDefinition option option"
  | HostOuter 'h

definition read_outer :: "('h, 'w) realm \<Rightarrow> definitions \<Rightarrow> 'w \<Rightarrow> string \<Rightarrow> 'h outer" where
  "read_outer R defs w database =
     (case defs database of
        Some inner \<Rightarrow> OwnDictionary inner
      | None \<Rightarrow> (case array_get R w database of None \<Rightarrow> NoOuter | Some h \<Rightarrow> HostOuter h))"

definition truthy_outer :: "('h, 'w) realm \<Rightarrow> 'h outer \<Rightarrow> bool" where
  "truthy_outer R v =
     (case v of NoOuter \<Rightarrow> False | OwnDictionary inner \<Rightarrow> True | HostOuter h \<Rightarrow> truthy R h)"

text \<open>
  The value of \<^verbatim>\<open>v[table]\<close> for the value \<open>v\<close> of \<^verbatim>\<open>this.tableDefinitions[database]\<close>.
  Reading a property of \<^verbatim>\<open>undefined\<close> raises.
\<close>

definition read_inner ::
  "('h, 'w) realm \<Rightarrow> 'w \<Rightarrow> string \<Rightarrow> 'h outer \<Rightarrow> string \<Rightarrow> host_error + 'h found" where
  "read_inner R w database v table =
     (case v of
        NoOuter \<Rightarrow> Inl TypeError
      | OwnDictionary inner \<Rightarrow>
          (case inner table of
             Some None \<Rightarrow> Inr NullValue
           | Some (Some d) \<Rightarrow> Inr (Definition d)
           | None \<Rightarrow>
               (case object_get R w database table of
                  None \<Rightarrow> Inr Absent
                | Some h \<Rightarrow> Inr (HostValue h)))
      | HostOuter h \<Rightarrow> host_get R w h table)"

definition truthy_found :: "('h, 'w) realm \<Rightarrow> 'h found \<Rightarrow> bool" where
  "truthy_found R v =
     (case v of Definition d \<Rightarrow> True | HostValue h \<Rightarrow> truthy R h | _ \<Rightarrow> False)"

text \<open>
  The test \<^verbatim>\<open>this.tableDefinitions[database] && this.tableDefinitions[database][table]\<close>:
  the value found when it counts as true, nothing when the test fails, or the error
  that reading raises.
\<close>

definition cached ::
  "('h, 'w) realm \<Rightarrow> definitions \<Rightarrow> 'w \<Rightarrow> string \<Rightarrow> string \<Rightarrow> host_error + 'h found option" where
  "cached R defs w database table =
     (let v = read_outer R defs w database
      in if truthy_outer R v then
           (case read_inner R w database v table of
              Inl e \<Rightarrow> Inl e
            | Inr x \<Rightarrow> Inr (if truthy_found R x then Some x else None))
         else Inr None)"

text \<open>
  \<^verbatim>\<open>this.tableDefinitions[database] = this.tableDefinitions[database] || {};\<close>
  A dictionary that is there is assigned to its own place. A value of the host that
  counts as true is assigned under the name. Otherwise a fresh dictionary is assigned,
  and the array owns it from then on.
\<close>

definition ensure_outer ::
  "('h, 'w) realm \<Rightarrow> definitions \<Rightarrow> 'w \<Rightarrow> string \<Rightarrow> host_error + definitions \<times> 'w" where
  "ensure_outer R defs w database =
     (let v = read_outer R defs w database
      in if truthy_outer R v then
           (case v of
              HostOuter h \<Rightarrow>
                (case array_set_same R w database h of
                   Inl e \<Rightarrow> Inl e
                 | Inr w' \<Rightarrow> Inr (defs, w'))
            | _ \<Rightarrow> Inr (defs, w))
         else
           (case array_set_new R w database of
              Inl e \<Rightarrow> Inl e
            | Inr w' \<Rightarrow> Inr (defs(database \<mapsto> Map.empty), w')))"

text \<open>
  \<^verbatim>\<open>this.tableDefinitions[database][table] = value;\<close> where \<open>value\<close> is a definition
  or \<^verbatim>\<open>null\<close>. Assigning a property of \<^verbatim>\<open>undefined\<close> raises.
\<close>

definition write_inner ::
  "('h, 'w) realm \<Rightarrow> definitions \<Rightarrow> 'w \<Rightarrow> string \<Rightarrow> string \<Rightarrow> tableDefinition option
     \<Rightarrow> host_error + definitions \<times> 'w" where
  "write_inner R defs w database table val =
     (case read_outer R defs w database of
        NoOuter \<Rightarrow> Inl TypeError
      | OwnDictionary inner \<Rightarrow>
          (if inner table \<noteq> None then Inr (defs(database \<mapsto> inner(table \<mapsto> val)), w)
           else
             (case object_set R w database table val of
                None \<Rightarrow> Inr (defs(database \<mapsto> inner(table \<mapsto> val)), w)
              | Some (Inl e) \<Rightarrow> Inl e
              | Some (Inr w') \<Rightarrow> Inr (defs, w')))
      | HostOuter h \<Rightarrow>
          (case host_set R w h table val of
             Inl e \<Rightarrow> Inl e
           | Inr w' \<Rightarrow> Inr (defs, w')))"

text \<open>\<^verbatim>\<open>Query.flagMask\<close>. A name that is not in the table reads as \<^verbatim>\<open>undefined\<close>, which
  the bitwise conjunction takes as zero.\<close>

definition flagMask :: "(string \<times> nat) list" where
  "flagMask =
     [(''NOT_NULL'', 1), (''PRIMARY_KEY'', 2), (''UNIQUE_KEY'', 4), (''MULTIPLE_KEY'', 8),
      (''BLOB'', 16), (''UNSIGNED'', 32), (''ZEROFILL_FLAG'', 64), (''BINARY_COLLATION'', 128),
      (''ENUM'', 256), (''AUTO_INCREMENT'', 512), (''TIMESTAMP'', 1024), (''SET'', 2048),
      (''NO_DEFAULT_VALUE_FLAG'', 4096), (''ON_UPDATE_NOW_FLAG'', 8192), (''NUM_FLAG'', 32768)]"

definition has_flag :: "nat \<Rightarrow> string \<Rightarrow> bool" where
  "has_flag fl key = (fl AND (case map_of flagMask key of None \<Rightarrow> 0 | Some m \<Rightarrow> m) \<noteq> 0)"

definition column_definition :: "column \<Rightarrow> columnDefinition" where
  "column_definition c =
     \<lparr>cd_name = c_name c, cd_type = c_type c,
      notNull = has_flag (c_flags c) ''NOT_NULL'',
      primaryKey = has_flag (c_flags c) ''PRIMARY_KEY'',
      unsigned = has_flag (c_flags c) ''UNSIGNED''\<rparr>"

text \<open>The text of the introspection statement of \<^verbatim>\<open>getDefinition\<close>.\<close>

definition definition_path :: "string \<Rightarrow> string \<Rightarrow> string" where
  "definition_path database table = escapeIdentifier database @ ''.'' @ escapeIdentifier table"

definition definition_sql :: "string \<Rightarrow> string \<Rightarrow> string" where
  "definition_sql database table = ''SELECT * FROM '' @ definition_path database table @ '' WHERE 1 = 0''"

text \<open>
  \<^verbatim>\<open>async getDefinition (database, table)\<close>, statement by statement. The state is the
  dictionaries, the state of the host's objects, and the calls made on the driver so
  far.
  \<^verbatim>\<open>if (this.tableDefinitions[database] && this.tableDefinitions[database][table]) {
    return this.tableDefinitions[database][table];
  }
  const path = ...; const escapedPath = ...;
  this.tableDefinitions[database] = this.tableDefinitions[database] || {};
  let obj = { name: table, database: database, path: path, escapedPath: escapedPath, columns: [] };
  const data = await this.raw("SELECT * FROM " + path + " WHERE 1 = 0");
  for (const column of data.meta) { obj.columns.push({ ... }); }
  this.tableDefinitions[database][table] = obj;
  return this.tableDefinitions[database][table];\<close>
  What is returned is whatever the last property access yields: a definition, or a value
  of the host.
\<close>

definition getDefinition ::
  "('h, 'w) realm \<Rightarrow> driver \<Rightarrow> string \<Rightarrow> string \<Rightarrow> definitions \<times> 'w \<times> call list
     \<Rightarrow> ('n error + 'h found) \<times> definitions \<times> 'w \<times> call list" where
  "getDefinition R drv database table st =
     (case st of (defs, w, tr) \<Rightarrow>
        (case cached R defs w database table of
           Inl e \<Rightarrow> (Inl (HostError e), defs, w, tr)
         | Inr (Some x) \<Rightarrow> (Inr x, defs, w, tr)
         | Inr None \<Rightarrow>
             (case ensure_outer R defs w database of
                Inl e \<Rightarrow> (Inl (HostError e), defs, w, tr)
              | Inr (defs1, w1) \<Rightarrow>
                  (let obj = \<lparr>td_name = table, td_database = database,
                              path = definition_path database table,
                              escapedPath = [btick] @ escapeIdentifier database @ [btick] @ ''.''
                                            @ [btick] @ escapeIdentifier table @ [btick],
                              columns = []\<rparr>
                   in case raw drv [definition_sql database table] tr of
                        (Inl e, tr') \<Rightarrow> (Inl e, defs1, w1, tr')
                      | (Inr data, tr') \<Rightarrow>
                          (let obj' = obj\<lparr>columns := map column_definition (meta data)\<rparr>
                           in case write_inner R defs1 w1 database table (Some obj') of
                                Inl e \<Rightarrow> (Inl (HostError e), defs1, w1, tr')
                              | Inr (defs2, w2) \<Rightarrow>
                                  (case read_inner R w2 database
                                          (read_outer R defs2 w2 database) table of
                                     Inl e \<Rightarrow> (Inl (HostError e), defs2, w2, tr')
                                   | Inr x \<Rightarrow> (Inr x, defs2, w2, tr')))))))"

text \<open>
  \<^verbatim>\<open>invalidateDefinition (database, table) {
    if (this.tableDefinitions[database] && this.tableDefinitions[database][table]) {
      this.tableDefinitions[database][table] = null;
    }
  }\<close>
\<close>

definition invalidateDefinition ::
  "('h, 'w) realm \<Rightarrow> string \<Rightarrow> string \<Rightarrow> definitions \<times> 'w \<Rightarrow> host_error + definitions \<times> 'w" where
  "invalidateDefinition R database table st =
     (case st of (defs, w) \<Rightarrow>
        (case cached R defs w database table of
           Inl e \<Rightarrow> Inl e
         | Inr None \<Rightarrow> Inr (defs, w)
         | Inr (Some x) \<Rightarrow> write_inner R defs w database table None))"

text \<open>The number of statements sent to the database in a run.\<close>

definition is_Query :: "call \<Rightarrow> bool" where
  "is_Query c = (case c of Query n q \<Rightarrow> True | _ \<Rightarrow> False)"

definition query_count :: "call list \<Rightarrow> nat" where
  "query_count tr = length (filter is_Query tr)"

section \<open>The checks of the substitutor, in words\<close>

text \<open>The tokens that have a \<^verbatim>\<open>case\<close> in \<^verbatim>\<open>parseFormatSymbol\<close>.\<close>

definition recognized_token :: "string \<Rightarrow> bool" where
  "recognized_token tok =
     (tok \<in> set [''b'', ''d'', ''dt'', ''n'', ''s'', ''t'', ''s+'', ''n+'', ''*like*''])"

text \<open>
  The host type that the \<^verbatim>\<open>case\<close> of a token tests its parameter for, under the name
  that its error message gives it.
\<close>

definition checked_kind :: "string \<Rightarrow> string" where
  "checked_kind tok =
     (if tok = ''b'' then ''boolean''
      else if tok = ''d'' \<or> tok = ''dt'' \<or> tok = ''t'' then ''sb.Date''
      else if tok = ''n'' then ''number''
      else if tok = ''s'' \<or> tok = ''*like*'' then ''string''
      else ''Array'')"

definition is_kind :: "string \<Rightarrow> 'n jsvalue \<Rightarrow> bool" where
  "is_kind kind v =
     (case v of
        JBool b \<Rightarrow> kind = ''boolean''
      | JNumber n \<Rightarrow> kind = ''number''
      | JString s \<Rightarrow> kind = ''string''
      | JArray xs \<Rightarrow> kind = ''Array''
      | JDate t \<Rightarrow> kind = ''sb.Date''
      | JSbDate t \<Rightarrow> kind = ''sb.Date''
      | _ \<Rightarrow> False)"

text \<open>
  The host type that a token requires in the words of the spec, whose format tokens are
  boolean, date, datetime, time, number, string, string-list, number-list and
  contains-pattern: a list token requires a list of strings, or of numbers.
\<close>

definition is_string :: "'n jsvalue \<Rightarrow> bool" where
  "is_string v = (case v of JString s \<Rightarrow> True | _ \<Rightarrow> False)"

definition is_number :: "'n jsvalue \<Rightarrow> bool" where
  "is_number v = (case v of JNumber n \<Rightarrow> True | _ \<Rightarrow> False)"

definition required_by_spec :: "string \<Rightarrow> 'n jsvalue \<Rightarrow> bool" where
  "required_by_spec tok v =
     (if tok = ''s+'' then (case v of JArray xs \<Rightarrow> list_all is_string xs | _ \<Rightarrow> False)
      else if tok = ''n+'' then (case v of JArray xs \<Rightarrow> list_all is_number xs | _ \<Rightarrow> False)
      else is_kind (checked_kind tok) v)"

section \<open>The transaction of a chunk, in words\<close>

text \<open>
  The calls of the transaction that runs the chunk \<open>chunk\<close> after the calls \<open>tr\<close>, on
  the driver \<open>drv\<close>. A connection \<open>c\<close> is taken from the pool and a transaction is begun
  on it; all the statements of the chunk are sent on \<open>c\<close> as one text. If the database
  accepts the text, the transaction is committed, so all the statements of the chunk
  commit; if it rejects the text, the transaction is rolled back, so none does; and if
  the commit itself fails, the transaction is rolled back after it.
\<close>

definition transaction_of :: "driver \<Rightarrow> call list \<Rightarrow> string list \<Rightarrow> call list \<Rightarrow> bool" where
  "transaction_of drv tr chunk blk =
     (case on_getConnection drv tr of
        Inl m \<Rightarrow> False
      | Inr c \<Rightarrow>
          (let text = join [newline] chunk;
               begun = tr @ [GetConnection, BeginTransaction c];
               sent = begun @ [Query c text]
           in blk = [GetConnection, BeginTransaction c, Query c text] @
                (case on_query drv begun c text of
                   Inl m \<Rightarrow> [Rollback c]
                 | Inr r \<Rightarrow>
                     (case on_commit drv sent c of
                        None \<Rightarrow> [Commit c]
                      | Some m \<Rightarrow> [Commit c, Rollback c]))))"

text \<open>
  One transaction for each chunk, in the order of the chunks, each after the calls of
  those before it.
\<close>

fun transactions :: "driver \<Rightarrow> call list \<Rightarrow> string list list \<Rightarrow> call list list \<Rightarrow> bool" where
  "transactions drv tr [] blks = (blks = [])"
| "transactions drv tr (chunk # chunks) [] = False"
| "transactions drv tr (chunk # chunks) (blk # blks) =
     (transaction_of drv tr chunk blk \<and> transactions drv (tr @ blk) chunks blks)"

section \<open>The names that the host leaves alone, in words\<close>

text \<open>
  A database name and a table name are plain in a realm when, whatever the state of the
  host's objects, the array has no property of its own or inherited under the database
  name and accepts a dictionary there, and a dictionary has no inherited property under
  the table name and stores an entry there.
\<close>

definition plain_pair :: "('h, 'w) realm \<Rightarrow> string \<Rightarrow> string \<Rightarrow> bool" where
  "plain_pair R database table =
     (\<forall>w. array_get R w database = None
          \<and> (\<exists>w'. array_set_new R w database = Inr w')
          \<and> object_get R w database table = None
          \<and> (\<forall>v. object_set R w database table v = None))"

section \<open>Hosts and drivers for the examples\<close>

text \<open>A host with one number, zero, and one instant, the epoch.\<close>

definition epoch_host :: "unit host" where
  "epoch_host =
     \<lparr>numberToString = (\<lambda>n. ''0''),
      dateToString = (\<lambda>t. ''Thu Jan 01 1970 00:00:00 GMT+0000''),
      sbDateToString = (\<lambda>t. ''Thu Jan 01 1970 00:00:00 GMT+0000''),
      sqlDate = (\<lambda>t. ''1970-01-01''),
      sqlDateTime = (\<lambda>t. ''1970-01-01 00:00:00''),
      sqlTime = (\<lambda>t. ''00:00:00'')\<rparr>"

text \<open>
  A driver on which every call succeeds. Its pool numbers the connections in the order
  in which it hands them out, and every result has one column.
\<close>

definition healthy_driver :: driver where
  "healthy_driver =
     \<lparr>on_getConnection = (\<lambda>h. Inr (length (filter (\<lambda>c. c = GetConnection) h))),
      on_query = (\<lambda>h c q. Inr \<lparr>meta = [\<lparr>c_name = ''ID'', c_type = ''LONG'', c_flags = 35\<rparr>]\<rparr>),
      on_commit = (\<lambda>h c. None),
      on_rollback = (\<lambda>h c. None),
      on_end = (\<lambda>h c. None)\<rparr>"

text \<open>The same driver with a database that rejects every statement.\<close>

definition rejecting_driver :: driver where
  "rejecting_driver = healthy_driver\<lparr>on_query := (\<lambda>h c q. Inl ''statement rejected'')\<rparr>"


text \<open>
  A fragment of the realm of the host. Of what arrays and plain objects inherit it has
  \<^verbatim>\<open>constructor\<close> alone, the functions \<^verbatim>\<open>Array\<close> and \<^verbatim>\<open>Object\<close>; the array's
  \<^verbatim>\<open>length\<close> is zero and cannot hold a dictionary; a function has its \<^verbatim>\<open>name\<close>, which
  cannot be assigned, and keeps what is assigned to it under other names. The state of
  the host's objects is what has been assigned to the functions.
\<close>

datatype host_value = ArrayFunction | ObjectFunction | HostText string | HostNumber nat

definition sample_realm ::
  "(host_value, host_value \<times> string \<rightharpoonup> tableDefinition option) realm" where
  "sample_realm =
     \<lparr>truthy = (\<lambda>h. case h of HostText s \<Rightarrow> s \<noteq> [] | HostNumber n \<Rightarrow> n \<noteq> 0 | _ \<Rightarrow> True),
      array_get = (\<lambda>w k. if k = ''constructor'' then Some ArrayFunction
                          else if k = ''length'' then Some (HostNumber 0) else None),
      array_set_new = (\<lambda>w k. if k = ''length'' then Inl RangeError else Inr w),
      array_set_same = (\<lambda>w k h. Inr w),
      object_get = (\<lambda>w d k. if k = ''constructor'' then Some ObjectFunction else None),
      object_set = (\<lambda>w d k v. None),
      host_get = (\<lambda>w h k.
        case w (h, k) of
          Some None \<Rightarrow> Inr NullValue
        | Some (Some d) \<Rightarrow> Inr (Definition d)
        | None \<Rightarrow>
            (if k = ''name'' then
               (case h of
                  ArrayFunction \<Rightarrow> Inr (HostValue (HostText ''Array''))
                | ObjectFunction \<Rightarrow> Inr (HostValue (HostText ''Object''))
                | _ \<Rightarrow> Inr Absent)
             else Inr Absent)),
      host_set = (\<lambda>w h k v.
        if k = ''name'' then Inl TypeError
        else (case h of
                HostText s \<Rightarrow> Inl TypeError
              | HostNumber n \<Rightarrow> Inl TypeError
              | _ \<Rightarrow> Inr (w((h, k) \<mapsto> v))))\<rparr>"

text \<open>The definition and the cache that the examples of the schema cache arrive at.\<close>

definition users_definition :: tableDefinition where
  "users_definition =
     \<lparr>td_name = ''Users'', td_database = ''data'', path = ''data.Users'',
      escapedPath = [btick] @ ''data'' @ [btick] @ ''.'' @ [btick] @ ''Users'' @ [btick],
      columns = [\<lparr>cd_name = ''ID'', cd_type = ''LONG'', notNull = True,
                  primaryKey = True, unsigned = True\<rparr>]\<rparr>"

definition users_cache :: definitions where
  "users_cache = Map.empty(''data'' \<mapsto> Map.empty(''Users'' \<mapsto> Some users_definition))"

definition users_calls :: "call list" where
  "users_calls = [GetConnection, Query 0 ''SELECT * FROM data.Users WHERE 1 = 0'', End 0]"

section \<open>Properties of the escaping\<close>

lemma replace_g_Nil: "replace_g c rep [] = []"
  by (simp add: replace_g_def)

lemma replace_g_Cons:
  "replace_g c rep (x # xs) = (if x = c then rep else [x]) @ replace_g c rep xs"
  by (simp add: replace_g_def)

lemma replace_g_append: "replace_g c rep (xs @ ys) = replace_g c rep xs @ replace_g c rep ys"
  by (simp add: replace_g_def)

lemma escapeString_Nil: "escapeString [] = []"
  by (simp add: escapeString_def replace_g_Nil)

lemma escapeString_Cons: "escapeString (c # s) = esc_char c @ escapeString s"
  by (simp add: escapeString_def esc_char_def replace_g_Cons replace_g_append replace_g_Nil)

lemma escapeString_charwise: "escapeString s = concat (map esc_char s)"
  by (induction s) (simp_all add: escapeString_Nil escapeString_Cons)

lemma escapeLikeString_Nil: "escapeLikeString [] = []"
  by (simp add: escapeLikeString_def escapeString_Nil replace_g_Nil)

lemma escapeLikeString_Cons: "escapeLikeString (c # s) = esc_like_char c @ escapeLikeString s"
  by (simp add: escapeLikeString_def escapeString_Cons esc_char_def esc_like_char_def
        replace_g_Cons replace_g_append replace_g_Nil)

lemma escapeLikeString_charwise: "escapeLikeString s = concat (map esc_like_char s)"
  by (induction s) (simp_all add: escapeLikeString_Nil escapeLikeString_Cons)

lemma literal_body_escaped:
  "literal_body (escapeString s @ [squote]) = Some s"
proof (induction s)
  case Nil
  show ?case by (simp add: escapeString_Nil)
next
  case (Cons c s)
  show ?case
  proof (cases "c = bslash \<or> c = squote \<or> c = dquote")
    case True
    then have "escapeString (c # s) @ [squote] = bslash # c # (escapeString s @ [squote])"
      by (simp add: escapeString_Cons esc_char_def)
    moreover from True have "unescape_char c = [c]"
      by (auto simp: unescape_char_def)
    ultimately show ?thesis
      using Cons.IH by simp
  next
    case False
    then have e: "escapeString (c # s) @ [squote] = c # (escapeString s @ [squote])"
      by (simp add: escapeString_Cons esc_char_def)
    obtain d ds where ds: "escapeString s @ [squote] = d # ds"
      by (cases "escapeString s @ [squote]") simp_all
    from False have "literal_body (c # d # ds) = map_option (\<lambda>r. c # r) (literal_body (d # ds))"
      by simp
    with e ds Cons.IH show ?thesis
      by simp
  qed
qed

text \<open>
  C7. \<open>escapeString\<close> puts a backslash before every backslash, single quote and double
  quote and before nothing else, each character being escaped once; \<open>escapeLikeString\<close>
  does the same and also puts a backslash before every \<^verbatim>\<open>%\<close> and \<^verbatim>\<open>_\<close>; and the
  quoted literal rendered from \<open>escapeString s\<close> is read back by the engine's literal
  rules as \<open>s\<close> itself, for every string \<open>s\<close>.
\<close>

theorem escape_roundtrip:
  "escapeString s = concat (map esc_char s)
   \<and> escapeLikeString s = concat (map esc_like_char s)
   \<and> parse_literal ([squote] @ escapeString s @ [squote]) = Some s"
  by (simp add: escapeString_charwise [symmetric] escapeLikeString_charwise [symmetric]
        parse_literal_def literal_body_escaped)

theorem escape_roundtrip_witness:
  "escapeString [CHR ''O'', squote, CHR ''B'', bslash, dquote]
     = [CHR ''O'', bslash, squote, CHR ''B'', bslash, bslash, bslash, dquote]
   \<and> escapeLikeString [CHR ''5'', CHR ''%'', CHR ''_'', squote]
     = [CHR ''5'', bslash, CHR ''%'', bslash, CHR ''_'', bslash, squote]
   \<and> parse_literal ([squote] @ escapeString [CHR ''O'', squote, CHR ''B'', bslash, dquote] @ [squote])
     = Some [CHR ''O'', squote, CHR ''B'', bslash, dquote]"
  using escape_roundtrip [of "[CHR ''O'', squote, CHR ''B'', bslash, dquote]"]
    escape_roundtrip [of "[CHR ''5'', CHR ''%'', CHR ''_'', squote]"]
  by (simp add: esc_char_def esc_like_char_def parse_literal_def unescape_char_def)

section \<open>Properties of the substitutor and the converter\<close>

lemma expected_got_eq:
  "expected_got h kind p = SbError (''Expected '' @ kind @ '', got '' @ ToString h p) None"
  by (simp add: expected_got_def)

lemma check_b:
  "\<not> is_kind ''boolean'' p \<Longrightarrow> parseFormatSymbol h ''b'' p = Inl (expected_got h ''boolean'' p)"
  by (cases p) (simp_all add: parseFormatSymbol_def is_kind_def)

lemma check_d:
  "\<not> is_kind ''sb.Date'' p \<Longrightarrow> parseFormatSymbol h ''d'' p = Inl (expected_got h ''sb.Date'' p)"
  by (cases p) (simp_all add: parseFormatSymbol_def is_kind_def normalize_date_def)

lemma check_dt:
  "\<not> is_kind ''sb.Date'' p \<Longrightarrow> parseFormatSymbol h ''dt'' p = Inl (expected_got h ''sb.Date'' p)"
  by (cases p) (simp_all add: parseFormatSymbol_def is_kind_def normalize_date_def)

lemma check_n:
  "\<not> is_kind ''number'' p \<Longrightarrow> parseFormatSymbol h ''n'' p = Inl (expected_got h ''number'' p)"
  by (cases p) (simp_all add: parseFormatSymbol_def is_kind_def)

lemma check_s:
  "\<not> is_kind ''string'' p \<Longrightarrow> parseFormatSymbol h ''s'' p = Inl (expected_got h ''string'' p)"
  by (cases p) (simp_all add: parseFormatSymbol_def is_kind_def)

lemma check_t:
  "\<not> is_kind ''sb.Date'' p \<Longrightarrow> parseFormatSymbol h ''t'' p = Inl (expected_got h ''sb.Date'' p)"
  by (cases p) (simp_all add: parseFormatSymbol_def is_kind_def normalize_date_def)

lemma check_s_list:
  "\<not> is_kind ''Array'' p \<Longrightarrow> parseFormatSymbol h ''s+'' p = Inl (expected_got h ''Array'' p)"
  by (cases p) (simp_all add: parseFormatSymbol_def is_kind_def)

lemma check_n_list:
  "\<not> is_kind ''Array'' p \<Longrightarrow> parseFormatSymbol h ''n+'' p = Inl (expected_got h ''Array'' p)"
  by (cases p) (simp_all add: parseFormatSymbol_def is_kind_def)

lemma check_like:
  "\<not> is_kind ''string'' p \<Longrightarrow> parseFormatSymbol h ''*like*'' p = Inl (expected_got h ''string'' p)"
  by (cases p) (simp_all add: parseFormatSymbol_def is_kind_def)

lemma check_unknown:
  "\<not> recognized_token tok \<Longrightarrow>
   parseFormatSymbol h tok p = Inl (SbError ''Unknown Recordset replace parameter'' (Some (JString tok)))"
  by (simp add: parseFormatSymbol_def recognized_token_def)

lemma check_recognized:
  assumes "recognized_token tok" and "\<not> is_kind (checked_kind tok) p"
  shows "parseFormatSymbol h tok p = Inl (expected_got h (checked_kind tok) p)"
proof -
  from assms(1) have "tok = ''b'' \<or> tok = ''d'' \<or> tok = ''dt'' \<or> tok = ''n'' \<or> tok = ''s''
      \<or> tok = ''t'' \<or> tok = ''s+'' \<or> tok = ''n+'' \<or> tok = ''*like*''"
    by (simp add: recognized_token_def)
  then show ?thesis
  proof (elim disjE)
    assume "tok = ''b''" with assms(2) show ?thesis by (simp add: checked_kind_def check_b)
  next
    assume "tok = ''d''" with assms(2) show ?thesis by (simp add: checked_kind_def check_d)
  next
    assume "tok = ''dt''" with assms(2) show ?thesis by (simp add: checked_kind_def check_dt)
  next
    assume "tok = ''n''" with assms(2) show ?thesis by (simp add: checked_kind_def check_n)
  next
    assume "tok = ''s''" with assms(2) show ?thesis by (simp add: checked_kind_def check_s)
  next
    assume "tok = ''t''" with assms(2) show ?thesis by (simp add: checked_kind_def check_t)
  next
    assume "tok = ''s+''" with assms(2) show ?thesis by (simp add: checked_kind_def check_s_list)
  next
    assume "tok = ''n+''" with assms(2) show ?thesis by (simp add: checked_kind_def check_n_list)
  next
    assume "tok = ''*like*''" with assms(2) show ?thesis by (simp add: checked_kind_def check_like)
  qed
qed

text \<open>
  What the substitutor does check. For every recognized token, \<open>parseFormatSymbol\<close>
  tests its parameter for the host type named in the token's error message (for both
  list tokens, an array), and when the test fails it raises an error whose message ends
  with the received value; for every other token it raises the error for an unknown
  parameter, which carries the token.
\<close>

lemma parseFormatSymbol_checks:
  "(recognized_token tok \<and> \<not> is_kind (checked_kind tok) p \<longrightarrow>
      parseFormatSymbol h tok p
        = Inl (SbError (''Expected '' @ checked_kind tok @ '', got '' @ ToString h p) None))
   \<and> (\<not> recognized_token tok \<longrightarrow>
      parseFormatSymbol h tok p
        = Inl (SbError ''Unknown Recordset replace parameter'' (Some (JString tok))))"
  by (simp add: check_recognized check_unknown expected_got_eq)

lemma parseFormatSymbol_checks_example:
  "recognized_token ''n'' \<and> \<not> is_kind (checked_kind ''n'') (JString ''abc'' :: unit jsvalue)
   \<and> parseFormatSymbol epoch_host ''n'' (JString ''abc'')
       = Inl (SbError ''Expected number, got abc'' None)
   \<and> \<not> recognized_token ''p''
   \<and> parseFormatSymbol epoch_host ''p'' (JString ''abc'')
       = Inl (SbError ''Unknown Recordset replace parameter'' (Some (JString ''p'')))"
  using parseFormatSymbol_checks [of "''n''" "JString ''abc''" epoch_host]
    parseFormatSymbol_checks [of "''p''" "JString ''abc''" epoch_host]
  by (simp add: recognized_token_def checked_kind_def is_kind_def)

text \<open>
  C6 fails at the token \<^verbatim>\<open>n+\<close>, the number list. The claim has every recognized token
  validate its parameter against the host type that the token requires and fail on any
  mismatch. Given a list whose one element is the string \<^verbatim>\<open>1 OR 1=1\<close>, which is not a
  list of numbers, \<open>parseFormatSymbol\<close> raises nothing and renders the string as it is,
  between parentheses. The sibling cases do what this one misses: the token \<^verbatim>\<open>n\<close>
  rejects the same string, and the token \<^verbatim>\<open>s+\<close> escapes each element of its list.
\<close>

theorem number_list_elements_unchecked:
  "\<not> required_by_spec ''n+'' (JArray [JString ''1 OR 1=1''] :: unit jsvalue)
   \<and> parseFormatSymbol epoch_host ''n+'' (JArray [JString ''1 OR 1=1'']) = Inr ''(1 OR 1=1)''
   \<and> parseFormatSymbol epoch_host ''n'' (JString ''1 OR 1=1'')
       = Inl (SbError ''Expected number, got 1 OR 1=1'' None)
   \<and> parseFormatSymbol epoch_host ''s+'' (JArray [JString [squote]])
       = Inr ([CHR ''('', squote, bslash, squote, squote, CHR '')''])"
  by (simp add: required_by_spec_def is_number_def parseFormatSymbol_def array_join_def
        expected_got_def escapeString_def replace_g_def)

lemma string_symbol_roundtrip:
  "parseFormatSymbol h ''s'' (JString s) = Inr ([squote] @ escapeString s @ [squote])
   \<and> convertToSQL h (JString s) ''VAR_STRING'' = Inr (JString ([squote] @ escapeString s @ [squote]))
   \<and> parse_literal ([squote] @ escapeString s @ [squote]) = Some s"
  by (simp add: parseFormatSymbol_def convertToSQL_def temporal_def isArray_def
        parse_literal_def literal_body_escaped)

lemma date_symbol_as_converter:
  "v = JDate t \<or> v = JSbDate t \<Longrightarrow>
   map_sum id JString (parseFormatSymbol h ''d'' v) = convertToSQL h v ''DATE''"
  by (auto simp: parseFormatSymbol_def convertToSQL_def normalize_date_def new_sbDate_def temporal_def)

lemma datetime_symbol_as_converter:
  "v = JDate t \<or> v = JSbDate t \<Longrightarrow>
   map_sum id JString (parseFormatSymbol h ''dt'' v) = convertToSQL h v ''DATETIME''"
  by (auto simp: parseFormatSymbol_def convertToSQL_def normalize_date_def new_sbDate_def temporal_def)

text \<open>
  C8 holds for the tokens \<^verbatim>\<open>d\<close> and \<^verbatim>\<open>dt\<close> (the two lemmas above) and fails for
  \<^verbatim>\<open>t\<close>: for every \<^verbatim>\<open>sb.Date\<close> value the substitutor renders the bare text of
  \<^verbatim>\<open>sqlTime()\<close>, while the converter renders the same text between single quotes for the
  target \<^verbatim>\<open>TIME\<close>, so the two renderings differ.
\<close>

theorem time_symbol_unquoted:
  "parseFormatSymbol h ''t'' (JSbDate t) = Inr (sqlTime h t)
   \<and> convertToSQL h (JSbDate t) ''TIME'' = Inr (JString ([squote] @ sqlTime h t @ [squote]))
   \<and> map_sum id JString (parseFormatSymbol h ''t'' (JSbDate t)) \<noteq> convertToSQL h (JSbDate t) ''TIME''"
  by (simp add: parseFormatSymbol_def convertToSQL_def normalize_date_def new_sbDate_def temporal_def)

section \<open>Properties of raw\<close>

text \<open>
  C4. Whenever \<open>raw\<close> acquires a connection \<open>c\<close> from the pool, the calls it makes
  are the acquisition, the statement on \<open>c\<close>, and \<^verbatim>\<open>end()\<close> on \<open>c\<close>, which gives the
  connection back; this does not depend on the answer of the driver to the statement, so
  the connection is released both when the statement succeeds and when it fails.
\<close>

theorem raw_releases_connection:
  assumes "on_getConnection drv tr = Inr c"
  shows "snd (raw drv args tr :: ('n error + result) \<times> call list)
           = tr @ [GetConnection, Query c (join [newline] args), End c]"
  using assms by (simp add: raw_def Let_def split: option.splits)

lemma raw_result:
  assumes "on_getConnection drv tr = Inr c"
  shows "fst (raw drv args tr :: ('n error + result) \<times> call list)
           = (case on_end drv (tr @ [GetConnection, Query c (join [newline] args)]) c of
                Some m \<Rightarrow> Inl (DriverError m)
              | None \<Rightarrow>
                  (case on_query drv (tr @ [GetConnection]) c (join [newline] args) of
                     Inl m \<Rightarrow> Inl (DriverError m)
                   | Inr r \<Rightarrow> Inr r))"
  using assms by (simp add: raw_def Let_def split: option.splits)

theorem raw_releases_connection_witness:
  "on_getConnection rejecting_driver [] = Inr 0
   \<and> fst (raw rejecting_driver [''SELECT 1''] [] :: (unit error + result) \<times> call list)
       = Inl (DriverError ''statement rejected'')
   \<and> snd (raw rejecting_driver [''SELECT 1''] [] :: (unit error + result) \<times> call list)
       = [GetConnection, Query 0 ''SELECT 1'', End 0]
   \<and> on_getConnection healthy_driver [] = Inr 0
   \<and> snd (raw healthy_driver [''SELECT 1''] [] :: (unit error + result) \<times> call list)
       = [GetConnection, Query 0 ''SELECT 1'', End 0]"
proof -
  have r: "on_getConnection rejecting_driver [] = Inr 0"
    by (simp add: rejecting_driver_def healthy_driver_def)
  have h: "on_getConnection healthy_driver [] = Inr 0"
    by (simp add: healthy_driver_def)
  have "fst (raw rejecting_driver [''SELECT 1''] [] :: (unit error + result) \<times> call list)
       = Inl (DriverError ''statement rejected'')"
    by (simp add: raw_def rejecting_driver_def healthy_driver_def)
  with r h raw_releases_connection [OF r, of "[''SELECT 1'']", where 'n = unit]
    raw_releases_connection [OF h, of "[''SELECT 1'']", where 'n = unit]
  show ?thesis by simp
qed

section \<open>Properties of isTablePresent\<close>

lemma isTablePresent_fetch:
  "isTablePresent fetch database table
     = (case fetch \<lparr>rs_select = [''1''], rs_from = Some (''INFORMATION_SCHEMA'', ''TABLES''),
                    rs_where = [(''TABLE_SCHEMA = %s'', [JString database]),
                                (''TABLE_NAME = %s'', [JString table])]\<rparr> of
          Inl e \<Rightarrow> Inl e
        | Inr rows \<Rightarrow> Inr (rows \<noteq> []))"
  by (simp add: isTablePresent_def getRecordset_def new_Recordset_def rs_add_select_def
        rs_set_from_def rs_add_where_def split: sum.splits)

text \<open>
  C5, as stated, fails. The claim has \<open>isTablePresent\<close> return true iff exactly one row
  of the information schema matches. When two rows match the given schema and table name
  exactly, \<open>isTablePresent\<close> returns true.
\<close>

theorem isTablePresent_two_rows:
  "isTablePresent (information_schema_fetch [(''data'', ''Extra_News''), (''data'', ''Extra_News'')])
       ''data'' ''Extra_News'' = (Inr True :: unit error + bool)
   \<and> length (matching_rows [(''data'', ''Extra_News''), (''data'', ''Extra_News'')]
       ''data'' ''Extra_News'') = 2"
  by (simp add: isTablePresent_fetch information_schema_fetch_def matching_rows_def)

text \<open>
  C5, amended. \<open>isTablePresent\<close> returns true iff at least one row of the information
  schema matches the given schema name and table name exactly; in particular it returns
  false when no row matches, as for a near-miss name.
\<close>

theorem isTablePresent_at_least_one:
  "isTablePresent (information_schema_fetch tables) database table
     = (Inr (1 \<le> length (matching_rows tables database table)) :: 'n error + bool)"
  by (cases "matching_rows tables database table")
     (simp_all add: isTablePresent_fetch information_schema_fetch_def)

theorem isTablePresent_at_least_one_witness:
  "isTablePresent (information_schema_fetch [(''data'', ''Extra_News'')]) ''data'' ''Extra_News''
     = (Inr True :: unit error + bool)
   \<and> isTablePresent (information_schema_fetch [(''data'', ''Extra_News'')]) ''data'' ''Extra_New''
     = (Inr False :: unit error + bool)"
  using isTablePresent_at_least_one [of "[(''data'', ''Extra_News'')]" "''data''" "''Extra_News''", where 'n = unit]
    isTablePresent_at_least_one [of "[(''data'', ''Extra_News'')]" "''data''" "''Extra_New''", where 'n = unit]
  by (simp add: matching_rows_def)

section \<open>Properties of batchUpdate\<close>

declare batch_loop.simps [simp del] chunks_from.simps [simp del]

lemma render_all_replicate:
  "render_all (\<lambda>row. Inr [row]) (replicate n row) = Inr (replicate n (row @ '';''))"
  by (induction n) simp_all

lemma chunks_2500: "map length (chunks_from (replicate 2500 q) 0) = [1000, 1000, 500]"
  by (simp add: chunks_from.simps [of _ 0] chunks_from.simps [of _ 1000] chunks_from.simps [of _ 2000] chunks_from.simps [of _ 3000]  updateBatchLimit_def slice_def)

lemma concat_chunks_from: "i \<le> length qs \<Longrightarrow> concat (chunks_from qs i) = drop i qs"
proof (induction qs i rule: chunks_from.induct)
  case (1 queries i)
  show ?case
  proof (cases "i + updateBatchLimit \<le> length queries")
    case True
    then have i: "i \<le> length queries"
      by simp
    have "take updateBatchLimit (drop i queries) @ drop updateBatchLimit (drop i queries)
             = drop i queries"
      by (rule append_take_drop_id)
    then have "slice queries i (i + updateBatchLimit) @ drop (i + updateBatchLimit) queries
             = drop i queries"
      by (simp add: slice_def add.commute)
    with "1.IH" [OF i True] i show ?thesis
      by (subst chunks_from.simps) simp
  next
    case False
    then have "chunks_from queries (i + updateBatchLimit) = []"
      by (simp add: chunks_from.simps)
    with 1 False show ?thesis
      by (subst chunks_from.simps) (simp add: slice_def)
  qed
qed

lemma length_chunks_from:
  "i \<le> length qs \<Longrightarrow> length (chunks_from qs i) = Suc ((length qs - i) div updateBatchLimit)"
proof (induction qs i rule: chunks_from.induct)
  case (1 queries i)
  show ?case
  proof (cases "i + updateBatchLimit \<le> length queries")
    case True
    then have "(length queries - i) div updateBatchLimit
             = Suc ((length queries - (i + updateBatchLimit)) div updateBatchLimit)"
      by (simp add: updateBatchLimit_def le_div_geq)
    with 1 True show ?thesis
      by (subst chunks_from.simps) simp
  next
    case False
    then have "chunks_from queries (i + updateBatchLimit) = []"
      by (simp add: chunks_from.simps)
    moreover from False have "(length queries - i) div updateBatchLimit = 0"
      by (simp add: updateBatchLimit_def)
    ultimately show ?thesis
      using 1 by (subst chunks_from.simps) simp
  qed
qed

lemma chunk_sizes: "c \<in> set (chunks_from qs i) \<Longrightarrow> length c \<le> updateBatchLimit"
proof (induction qs i rule: chunks_from.induct)
  case (1 queries i)
  from "1.prems" show ?case
    by (subst (asm) chunks_from.simps) (auto simp: slice_def "1.IH" split: if_splits)
qed

lemma one_chunk: "chunks_from [q] 0 = [[q]]"
  by (simp add: chunks_from.simps [of _ 0] chunks_from.simps [of _ 1000] updateBatchLimit_def slice_def)

lemma three_chunks:
  "chunks_from (replicate 2500 q) 0 = [replicate 1000 q, replicate 1000 q, replicate 500 q]"
  by (simp add: chunks_from.simps [of _ 0] chunks_from.simps [of _ 1000]
        chunks_from.simps [of _ 2000] chunks_from.simps [of _ 3000] updateBatchLimit_def slice_def)

lemma run_chunk_calls:
  assumes "on_getConnection drv tr = Inr c"
  shows "\<exists>blk. snd (run_chunk drv chunk tr :: 'n error option \<times> call list) = tr @ blk
               \<and> transaction_of drv tr chunk blk"
  using assms
  by (auto simp: run_chunk_def getTransaction_def rollback_chunk_def transaction_of_def Let_def
      split: sum.splits option.splits)

lemma run_chunk_transaction:
  assumes "on_getConnection drv tr = Inr c" and "\<And>h k. on_rollback drv h k = None"
  shows "\<exists>blk. (run_chunk drv chunk tr :: 'n error option \<times> call list) = (None, tr @ blk)
               \<and> transaction_of drv tr chunk blk"
  using assms
  by (auto simp: run_chunk_def getTransaction_def rollback_chunk_def transaction_of_def Let_def
      split: sum.splits option.splits)

lemma batch_loop_transactions:
  assumes grants: "\<And>h. \<exists>c. on_getConnection drv h = Inr c"
    and rolls: "\<And>h k. on_rollback drv h k = None"
  shows "\<exists>blks. (batch_loop drv queries i tr :: ('n error + unit) \<times> call list) = (Inr (), tr @ concat blks)
           \<and> transactions drv tr (chunks_from queries i) blks"
proof (induction queries i arbitrary: tr rule: chunks_from.induct)
  case (1 queries i)
  show ?case
  proof (cases "i \<le> length queries")
    case False
    then have "(batch_loop drv queries i tr :: ('n error + unit) \<times> call list) = (Inr (), tr @ concat [])"
      and "chunks_from queries i = []"
      by (simp_all add: batch_loop.simps chunks_from.simps)
    then show ?thesis
      by (metis transactions.simps(1))
  next
    case True
    obtain c where c: "on_getConnection drv tr = Inr c"
      using grants by blast
    obtain blk where blk:
      "(run_chunk drv (slice queries i (i + updateBatchLimit)) tr :: 'n error option \<times> call list) = (None, tr @ blk)"
      "transaction_of drv tr (slice queries i (i + updateBatchLimit)) blk"
      using run_chunk_transaction [OF c rolls] by blast
    obtain blks where blks:
      "(batch_loop drv queries (i + updateBatchLimit) (tr @ blk) :: ('n error + unit) \<times> call list)
         = (Inr (), (tr @ blk) @ concat blks)"
      "transactions drv (tr @ blk) (chunks_from queries (i + updateBatchLimit)) blks"
      using "1.IH" [OF True] by blast
    have "(batch_loop drv queries i tr :: ('n error + unit) \<times> call list) = (Inr (), tr @ concat (blk # blks))"
      using True blk(1) blks(1) by (subst batch_loop.simps) simp
    moreover have "transactions drv tr (chunks_from queries i) (blk # blks)"
      using True blk(2) blks(2) by (subst chunks_from.simps) simp
    ultimately show ?thesis
      by blast
  qed
qed

lemma run_chunk_refused:
  "on_getConnection drv tr = Inl m \<Longrightarrow>
   (run_chunk drv chunk tr :: 'n error option \<times> call list) = (Some (DriverError m), tr @ [GetConnection])"
  by (simp add: run_chunk_def getTransaction_def)

lemma run_chunk_error:
  assumes "on_getConnection drv tr = Inr c"
  shows "fst (run_chunk drv chunk tr :: 'n error option \<times> call list) = None
         \<or> (\<exists>h m. on_rollback drv h c = Some m
                \<and> fst (run_chunk drv chunk tr :: 'n error option \<times> call list) = Some (DriverError m))"
  using assms
  by (auto simp: run_chunk_def getTransaction_def rollback_chunk_def Let_def
      split: sum.splits option.splits)

text \<open>
  One turn of the loop, for any driver: once the pool has granted the connection, the
  calls of the turn are the transaction of the chunk, and the loop goes on with the next
  chunk unless the rollback itself was rejected.
\<close>

lemma batch_loop_step:
  assumes "i \<le> length queries" and "on_getConnection drv tr = Inr c"
  shows "\<exists>blk. transaction_of drv tr (slice queries i (i + updateBatchLimit)) blk
           \<and> ((batch_loop drv queries i tr :: ('n error + unit) \<times> call list)
                 = batch_loop drv queries (i + updateBatchLimit) (tr @ blk)
              \<or> (\<exists>h m. on_rollback drv h c = Some m
                     \<and> (batch_loop drv queries i tr :: ('n error + unit) \<times> call list)
                         = (Inl (DriverError m), tr @ blk)))"
proof -
  obtain e tr' where r:
    "(run_chunk drv (slice queries i (i + updateBatchLimit)) tr :: 'n error option \<times> call list) = (e, tr')"
    by (cases "run_chunk drv (slice queries i (i + updateBatchLimit)) tr :: 'n error option \<times> call list")
  obtain blk where blk: "tr' = tr @ blk"
    "transaction_of drv tr (slice queries i (i + updateBatchLimit)) blk"
    using run_chunk_calls [OF assms(2), of "slice queries i (i + updateBatchLimit)", where 'n = 'n] r
    by auto
  from run_chunk_error [OF assms(2), of "slice queries i (i + updateBatchLimit)", where 'n = 'n] r
  have "e = None \<or> (\<exists>h m. on_rollback drv h c = Some m \<and> e = Some (DriverError m))"
    by simp
  with assms(1) r blk show ?thesis
    by (subst batch_loop.simps, subst (3) batch_loop.simps) auto
qed

text \<open>
  C1, as stated, fails. The claim has \<open>batchUpdate\<close> return, for each chunk, whether its
  transaction was committed or rolled back. On one row, a run whose chunk is committed
  and a run whose chunk is rolled back return the same value.
\<close>

theorem batchUpdate_outcome_not_returned:
  "fst (batchUpdate healthy_driver (\<lambda>row. Inr [row]) [''UPDATE t SET a = 1''] []
          :: (unit error + unit) \<times> call list)
     = fst (batchUpdate rejecting_driver (\<lambda>row. Inr [row]) [''UPDATE t SET a = 1''] []
          :: (unit error + unit) \<times> call list)
   \<and> snd (batchUpdate healthy_driver (\<lambda>row. Inr [row]) [''UPDATE t SET a = 1''] []
          :: (unit error + unit) \<times> call list)
     = [GetConnection, BeginTransaction 0, Query 0 ''UPDATE t SET a = 1;'', Commit 0]
   \<and> snd (batchUpdate rejecting_driver (\<lambda>row. Inr [row]) [''UPDATE t SET a = 1''] []
          :: (unit error + unit) \<times> call list)
     = [GetConnection, BeginTransaction 0, Query 0 ''UPDATE t SET a = 1;'', Rollback 0]"
  by (simp add: batchUpdate_def batch_loop.simps [of _ _ 0] batch_loop.simps [of _ _ 1000]
        updateBatchLimit_def slice_def run_chunk_def getTransaction_def rollback_chunk_def
        healthy_driver_def rejecting_driver_def)

text \<open>
  C1, amended. For every list of rows that all render and every driver that grants every
  connection and performs every rollback, \<open>batchUpdate\<close> returns \<^verbatim>\<open>undefined\<close> and
  nothing else, whatever the driver answers to the statements and to the commits; and
  its calls are one transaction for each chunk, committed when the database accepted the
  statements of the chunk and rolled back when it rejected them or the commit failed. So
  each chunk is committed or rolled back, and which of the two is not returned.
\<close>

theorem batchUpdate_swallows_failures:
  assumes "render_all render data = Inr queries"
    and "\<And>h. \<exists>c. on_getConnection drv h = Inr c"
    and "\<And>h k. on_rollback drv h k = None"
  shows "fst (batchUpdate drv render data tr :: ('n error + unit) \<times> call list) = Inr ()
     \<and> (\<exists>blks. snd (batchUpdate drv render data tr :: ('n error + unit) \<times> call list)
                  = tr @ concat blks
               \<and> transactions drv tr (chunks_from queries 0) blks)"
proof -
  obtain blks where
    "(batch_loop drv queries 0 tr :: ('n error + unit) \<times> call list) = (Inr (), tr @ concat blks)"
    "transactions drv tr (chunks_from queries 0) blks"
    using batch_loop_transactions [OF assms(2,3)] by blast
  with assms(1) show ?thesis
    by (auto simp: batchUpdate_def)
qed

theorem batchUpdate_swallows_failures_witness:
  "render_all (\<lambda>row. Inr [row]) [''UPDATE t SET a = 1''] = (Inr [''UPDATE t SET a = 1;''] :: unit error + string list)
   \<and> (\<forall>h. \<exists>c. on_getConnection rejecting_driver h = Inr c)
   \<and> (\<forall>h k. on_rollback rejecting_driver h k = None)
   \<and> fst (batchUpdate rejecting_driver (\<lambda>row. Inr [row]) [''UPDATE t SET a = 1''] []
          :: (unit error + unit) \<times> call list) = Inr ()
   \<and> (\<exists>blks. snd (batchUpdate rejecting_driver (\<lambda>row. Inr [row]) [''UPDATE t SET a = 1''] []
          :: (unit error + unit) \<times> call list) = [] @ concat blks
        \<and> transactions rejecting_driver [] (chunks_from [''UPDATE t SET a = 1;''] 0) blks)
   \<and> transactions rejecting_driver [] (chunks_from [''UPDATE t SET a = 1;''] 0)
        [[GetConnection, BeginTransaction 0, Query 0 ''UPDATE t SET a = 1;'', Rollback 0]]"
proof -
  have r: "render_all (\<lambda>row. Inr [row]) [''UPDATE t SET a = 1''] = (Inr [''UPDATE t SET a = 1;''] :: unit error + string list)"
    by simp
  have g: "\<And>h. \<exists>c. on_getConnection rejecting_driver h = Inr c"
    by (simp add: rejecting_driver_def healthy_driver_def)
  have b: "\<And>h k. on_rollback rejecting_driver h k = None"
    by (simp add: rejecting_driver_def healthy_driver_def)
  have t: "transactions rejecting_driver [] (chunks_from [''UPDATE t SET a = 1;''] 0)
        [[GetConnection, BeginTransaction 0, Query 0 ''UPDATE t SET a = 1;'', Rollback 0]]"
    by (simp add: one_chunk transaction_of_def rejecting_driver_def healthy_driver_def)
  from batchUpdate_swallows_failures [OF r g b, of "[]"] r g b t show ?thesis
    by blast
qed

text \<open>
  C2 holds in part: the chunks are consecutive, together they are the list of the
  statements, none has more than 1000 statements, and 2500 statements give chunks of
  sizes 1000, 1000 and 500 (the lemmas above). It fails when the number of statements is
  a multiple of 1000: the loop test is \<^verbatim>\<open>i <= queries.length\<close>, so for 1000 statements
  the loop runs a second time, with an empty chunk, in a transaction of its own.
\<close>

theorem batchUpdate_thousand_rows:
  "snd (batchUpdate healthy_driver (\<lambda>row. Inr [row]) (replicate 1000 ''UPDATE t SET a = 1'') []
        :: (unit error + unit) \<times> call list)
   = [GetConnection, BeginTransaction 0,
      Query 0 (join [newline] (replicate 1000 ''UPDATE t SET a = 1;'')), Commit 0,
      GetConnection, BeginTransaction 1, Query 1 [], Commit 1]
   \<and> chunks_from (replicate 1000 ''UPDATE t SET a = 1;'') 0
       = [replicate 1000 ''UPDATE t SET a = 1;'', []]"
  by (simp add: batchUpdate_def render_all_replicate
        batch_loop.simps [of _ _ 0] batch_loop.simps [of _ _ 1000] batch_loop.simps [of _ _ 2000]
        chunks_from.simps [of _ 0] chunks_from.simps [of _ 1000] chunks_from.simps [of _ 2000]
        updateBatchLimit_def slice_def run_chunk_def getTransaction_def healthy_driver_def)



section \<open>Properties of the schema cache\<close>

lemma raw_query_count:
  "(raw drv args tr :: ('n error + result) \<times> call list) = (Inr r, tr') \<Longrightarrow> query_count tr' = Suc (query_count tr)"
  by (auto simp: raw_def Let_def query_count_def is_Query_def split: sum.splits option.splits)

lemma raw_calls:
  "snd (raw drv args tr :: ('n error + result) \<times> call list) = tr @ [GetConnection]
   \<or> (\<exists>c. snd (raw drv args tr :: ('n error + result) \<times> call list)
            = tr @ [GetConnection, Query c (join [newline] args), End c])"
  by (auto simp: raw_def Let_def split: sum.splits option.splits)

lemma getDefinition_calls:
  "snd (snd (snd (getDefinition R drv database table (defs, w, tr)
       :: ('n error + 'h found) \<times> definitions \<times> 'w \<times> call list))) = tr
   \<or> snd (snd (snd (getDefinition R drv database table (defs, w, tr)
       :: ('n error + 'h found) \<times> definitions \<times> 'w \<times> call list)))
      = snd (raw drv [definition_sql database table] tr :: ('n error + result) \<times> call list)"
  by (auto simp: getDefinition_def Let_def split: sum.splits option.splits prod.splits)

lemma getDefinition_hit:
  "cached R defs w database table = Inr (Some x) \<Longrightarrow>
   (getDefinition R drv database table (defs, w, tr) :: ('n error + 'h found) \<times> definitions \<times> 'w \<times> call list)
     = (Inr x, defs, w, tr)"
  by (simp add: getDefinition_def)

text \<open>
  C9 fails where a name is a property that the host's arrays or plain objects inherit.
  On a fresh cache, \<open>getDefinition\<close> for the database \<^verbatim>\<open>constructor\<close> and the table
  \<^verbatim>\<open>name\<close> finds the function \<^verbatim>\<open>Array\<close> under the database name and its name under
  the table name: it returns the string \<^verbatim>\<open>Array\<close>, sends no statement and stores
  nothing, so two calls in a row send no statement at all. Once the database \<^verbatim>\<open>data\<close>
  has a dictionary, \<open>getDefinition\<close> for its table \<^verbatim>\<open>constructor\<close> returns the function
  \<^verbatim>\<open>Object\<close> in the same way. For plain names the claim holds (lemma
  \<open>getDefinition_cache_plain\<close> below).
\<close>

theorem getDefinition_inherited_property:
  "(getDefinition sample_realm healthy_driver ''constructor'' ''name'' (Map.empty, Map.empty, [])
      :: (unit error + host_value found) \<times> definitions \<times> (host_value \<times> string \<rightharpoonup> tableDefinition option) \<times> call list)
     = (Inr (HostValue (HostText ''Array'')), Map.empty, Map.empty, [])
   \<and> (getDefinition sample_realm healthy_driver ''data'' ''constructor'' (users_cache, Map.empty, users_calls)
      :: (unit error + host_value found) \<times> definitions \<times> (host_value \<times> string \<rightharpoonup> tableDefinition option) \<times> call list)
     = (Inr (HostValue ObjectFunction), users_cache, Map.empty, users_calls)"
  by (simp add: getDefinition_def cached_def read_outer_def read_inner_def truthy_outer_def
        truthy_found_def sample_realm_def users_cache_def)

lemma plain_object_get:
  "plain_pair R database table \<Longrightarrow> object_get R w database table = None"
  by (simp add: plain_pair_def)

lemma plain_object_set:
  "plain_pair R database table \<Longrightarrow> object_set R w database table v = None"
  by (simp add: plain_pair_def)

lemma plain_array_set_new:
  "plain_pair R database table \<Longrightarrow> \<exists>w'. array_set_new R w database = Inr w'"
  by (simp add: plain_pair_def)

lemma plain_read_outer:
  "plain_pair R database table \<Longrightarrow>
   read_outer R defs w database
     = (case defs database of None \<Rightarrow> NoOuter | Some inner \<Rightarrow> OwnDictionary inner)"
  by (simp add: plain_pair_def read_outer_def split: option.splits)

lemma plain_cached:
  assumes "plain_pair R database table"
  shows "cached R defs w database table
     = Inr (case defs database of
              None \<Rightarrow> None
            | Some inner \<Rightarrow> (case inner table of Some (Some d) \<Rightarrow> Some (Definition d) | _ \<Rightarrow> None))"
  by (simp add: cached_def plain_read_outer [OF assms] plain_object_get [OF assms]
        truthy_outer_def read_inner_def truthy_found_def split: option.splits)

lemma plain_ensure_outer:
  assumes "plain_pair R database table"
    and "ensure_outer R defs w database = Inr (defs1, w1)"
  shows "\<exists>inner. defs1 database = Some inner \<and> inner table = (case defs database of None \<Rightarrow> None | Some i \<Rightarrow> i table)"
  using assms(2)
  by (auto simp: ensure_outer_def plain_read_outer [OF assms(1)] truthy_outer_def Let_def
      split: option.splits sum.splits if_splits)

lemma plain_write_inner:
  assumes "plain_pair R database table" and "defs database = Some inner"
  shows "write_inner R defs w database table v = Inr (defs(database \<mapsto> inner(table \<mapsto> v)), w)"
  using assms(2)
  by (simp add: write_inner_def plain_read_outer [OF assms(1)] plain_object_set [OF assms(1)])

lemma plain_miss:
  assumes p: "plain_pair R database table"
    and m: "cached R defs w database table = Inr None"
    and g: "(getDefinition R drv database table (defs, w, tr)
              :: ('n error + 'h found) \<times> definitions \<times> 'w \<times> call list) = (Inr x, defs', w', tr')"
  shows "query_count tr' = Suc (query_count tr) \<and> (\<exists>d. x = Definition d)
         \<and> cached R defs' w' database table = Inr (Some x)"
proof -
  obtain r tr1 where r: "(raw drv [definition_sql database table] tr :: ('n error + result) \<times> call list) = (r, tr1)"
    by (cases "raw drv [definition_sql database table] tr :: ('n error + result) \<times> call list")
  obtain st1 where e: "ensure_outer R defs w database = Inr st1"
    using g m by (auto simp: getDefinition_def split: sum.splits)
  obtain defs1 w1 where st1: "st1 = (defs1, w1)"
    by (cases st1)
  obtain inner where inner: "defs1 database = Some inner"
    using plain_ensure_outer [OF p] e st1 by blast
  show ?thesis
  proof (cases r)
    case (Inl err)
    with g m r e st1 show ?thesis
      by (simp add: getDefinition_def Let_def)
  next
    case (Inr data)
    from g m r e st1 Inr inner
    have "tr' = tr1" and "\<exists>d. x = Definition d"
      and "cached R defs' w' database table = Inr (Some x)"
      by (auto simp: getDefinition_def Let_def
          plain_write_inner [where defs = defs1 and inner = inner, OF p inner]
          plain_read_outer [OF p] read_inner_def plain_cached [OF p])
    with r Inr show ?thesis
      using raw_query_count by blast
  qed
qed

lemma plain_invalidated:
  assumes p: "plain_pair R database table"
    and i: "invalidateDefinition R database table (defs, w) = Inr (defs', w')"
  shows "cached R defs' w' database table = Inr None"
proof (cases "cached R defs w database table = Inr None")
  case True
  with i show ?thesis
    by (auto simp: invalidateDefinition_def)
next
  case False
  then obtain inner where inner: "defs database = Some inner"
    by (auto simp: plain_cached [OF p] split: option.splits)
  with False i show ?thesis
    by (auto simp: invalidateDefinition_def plain_cached [OF p]
        plain_write_inner [where defs = defs and inner = inner, OF p inner]
        split: option.splits sum.splits)
qed

text \<open>
  For a plain pair of names: when the definition is not in the cache and \<open>getDefinition\<close>
  returns, it returns a definition and that call has sent exactly one statement; a second
  call returns the same definition and leaves the state as it was; and after
  \<open>invalidateDefinition\<close>, a call of \<open>getDefinition\<close> that returns has sent exactly one
  more statement, and the cache holds what it returned.
\<close>

lemma getDefinition_cache_plain:
  assumes "plain_pair R database table"
    and "cached R defs w database table = Inr None"
    and "(getDefinition R drv database table (defs, w, tr)
           :: ('n error + 'h found) \<times> definitions \<times> 'w \<times> call list) = (Inr x, defs1, w1, tr1)"
  shows "query_count tr1 = Suc (query_count tr)
     \<and> (\<exists>d. x = Definition d)
     \<and> (getDefinition R drv database table (defs1, w1, tr1)
           :: ('n error + 'h found) \<times> definitions \<times> 'w \<times> call list) = (Inr x, defs1, w1, tr1)
     \<and> (\<forall>defs2 w2 x2 defs3 w3 tr3.
          invalidateDefinition R database table (defs1, w1) = Inr (defs2, w2)
          \<and> (getDefinition R drv database table (defs2, w2, tr1)
               :: ('n error + 'h found) \<times> definitions \<times> 'w \<times> call list) = (Inr x2, defs3, w3, tr3)
          \<longrightarrow> query_count tr3 = Suc (query_count tr1)
              \<and> cached R defs3 w3 database table = Inr (Some x2))"
proof -
  note first = plain_miss [OF assms]
  then have hit: "cached R defs1 w1 database table = Inr (Some x)"
    by blast
  have again: "(getDefinition R drv database table (defs1, w1, tr1)
           :: ('n error + 'h found) \<times> definitions \<times> 'w \<times> call list) = (Inr x, defs1, w1, tr1)"
    by (rule getDefinition_hit [OF hit])
  have later: "query_count tr3 = Suc (query_count tr1) \<and> cached R defs3 w3 database table = Inr (Some x2)"
    if "invalidateDefinition R database table (defs1, w1) = Inr (defs2, w2)"
      and "(getDefinition R drv database table (defs2, w2, tr1)
               :: ('n error + 'h found) \<times> definitions \<times> 'w \<times> call list) = (Inr x2, defs3, w3, tr3)"
    for defs2 w2 x2 defs3 w3 tr3
    using plain_miss [OF assms(1) plain_invalidated [OF assms(1) that(1)] that(2)] by blast
  from first again later show ?thesis
    by blast
qed

text \<open>
  C10. \<open>escapeIdentifier\<close> returns its argument unchanged unless it contains
  \<^verbatim>\<open>chatrooms\<close>, and then it returns the argument between backticks. So when neither name
  contains \<^verbatim>\<open>chatrooms\<close>, every statement that \<open>getDefinition\<close> sends holds the database
  name and the table name as they were given, whatever characters they are made of; and
  when the lookup in the cache fails, the place for the dictionary can be assigned and a
  connection is granted, \<open>getDefinition\<close> sends that statement.
\<close>

theorem identifiers_embedded_verbatim:
  "escapeIdentifier s = (if sublist ''chatrooms'' s then [btick] @ s @ [btick] else s)
   \<and> (\<not> sublist ''chatrooms'' database \<and> \<not> sublist ''chatrooms'' table
      \<longrightarrow> (\<forall>c q. Query c q \<in> set (drop (length tr)
                     (snd (snd (snd (getDefinition R drv database table (defs, w, tr)
                        :: ('n error + 'h found) \<times> definitions \<times> 'w \<times> call list)))))
               \<longrightarrow> q = ''SELECT * FROM '' @ database @ ''.'' @ table @ '' WHERE 1 = 0''))
   \<and> (cached R defs w database table = Inr None \<and> ensure_outer R defs w database = Inr st1
        \<and> on_getConnection drv tr = Inr c
        \<and> \<not> sublist ''chatrooms'' database \<and> \<not> sublist ''chatrooms'' table
      \<longrightarrow> snd (snd (snd (getDefinition R drv database table (defs, w, tr)
                      :: ('n error + 'h found) \<times> definitions \<times> 'w \<times> call list)))
            = tr @ [GetConnection,
                    Query c (''SELECT * FROM '' @ database @ ''.'' @ table @ '' WHERE 1 = 0''),
                    End c])"
proof (intro conjI impI allI)
  show "escapeIdentifier s = (if sublist ''chatrooms'' s then [btick] @ s @ [btick] else s)"
    by (simp add: escapeIdentifier_def)
next
  fix k q
  assume n: "\<not> sublist ''chatrooms'' database \<and> \<not> sublist ''chatrooms'' table"
    and q: "Query k q \<in> set (drop (length tr)
                     (snd (snd (snd (getDefinition R drv database table (defs, w, tr)
                        :: ('n error + 'h found) \<times> definitions \<times> 'w \<times> call list)))))"
  from n have sql: "definition_sql database table
                  = ''SELECT * FROM '' @ database @ ''.'' @ table @ '' WHERE 1 = 0''"
    by (simp add: definition_sql_def definition_path_def escapeIdentifier_def)
  from getDefinition_calls [of R drv database table defs w tr, where 'n = 'n]
    raw_calls [of drv "[definition_sql database table]" tr, where 'n = 'n] q
  show "q = ''SELECT * FROM '' @ database @ ''.'' @ table @ '' WHERE 1 = 0''"
    by (auto simp: sql)
next
  assume a: "cached R defs w database table = Inr None \<and> ensure_outer R defs w database = Inr st1
        \<and> on_getConnection drv tr = Inr c
        \<and> \<not> sublist ''chatrooms'' database \<and> \<not> sublist ''chatrooms'' table"
  then show "snd (snd (snd (getDefinition R drv database table (defs, w, tr)
                      :: ('n error + 'h found) \<times> definitions \<times> 'w \<times> call list)))
            = tr @ [GetConnection,
                    Query c (''SELECT * FROM '' @ database @ ''.'' @ table @ '' WHERE 1 = 0''),
                    End c]"
    by (cases st1)
       (auto simp: escapeIdentifier_def getDefinition_def raw_def Let_def definition_sql_def
          definition_path_def split: sum.splits option.splits)
qed

lemma plain_data_users: "plain_pair sample_realm ''data'' ''Users''"
  by (simp add: plain_pair_def sample_realm_def)

lemma users_sql: "definition_sql ''data'' ''Users'' = ''SELECT * FROM data.Users WHERE 1 = 0''"
  by (simp add: definition_sql_def definition_path_def escapeIdentifier_def sublist_code)

lemma users_raw:
  "(raw healthy_driver [''SELECT * FROM data.Users WHERE 1 = 0''] [] :: (unit error + result) \<times> call list)
     = (Inr \<lparr>meta = [\<lparr>c_name = ''ID'', c_type = ''LONG'', c_flags = 35\<rparr>]\<rparr>, users_calls)"
  by (simp add: raw_def healthy_driver_def users_calls_def)

lemma users_columns:
  "map column_definition [\<lparr>c_name = ''ID'', c_type = ''LONG'', c_flags = 35\<rparr>]
     = [\<lparr>cd_name = ''ID'', cd_type = ''LONG'', notNull = True, primaryKey = True, unsigned = True\<rparr>]"
  by (simp add: column_definition_def has_flag_def flagMask_def)

lemma sample_data_new: "array_set_new sample_realm w ''data'' = Inr w"
  by (simp add: sample_realm_def)

lemma first_call:
  "(getDefinition sample_realm healthy_driver ''data'' ''Users'' (Map.empty, Map.empty, [])
      :: (unit error + host_value found) \<times> definitions \<times> (host_value \<times> string \<rightharpoonup> tableDefinition option) \<times> call list)
     = (Inr (Definition users_definition), users_cache, Map.empty, users_calls)"
proof -
  note p = plain_data_users
  have c: "cached sample_realm Map.empty Map.empty ''data'' ''Users'' = Inr None"
    by (simp add: plain_cached [OF p])
  have e: "ensure_outer sample_realm Map.empty Map.empty ''data''
             = Inr (Map.empty(''data'' \<mapsto> Map.empty), Map.empty)"
    by (simp add: ensure_outer_def plain_read_outer [OF p] truthy_outer_def sample_data_new)
  have i: "(Map.empty(''data'' \<mapsto> Map.empty)) ''data'' = Some Map.empty"
    by simp
  note w = plain_write_inner [where defs = "Map.empty(''data'' \<mapsto> Map.empty)"
      and inner = Map.empty, OF p i]
  show ?thesis
    by (simp add: getDefinition_def c e users_sql users_raw users_columns w
        plain_read_outer [OF p] read_inner_def escapeIdentifier_def sublist_code
        definition_path_def users_definition_def users_cache_def Let_def
        column_definition_def has_flag_def flagMask_def)
qed


lemma getDefinition_cache_example:
  "query_count users_calls = Suc (query_count [])
   \<and> (getDefinition sample_realm healthy_driver ''data'' ''Users'' (users_cache, Map.empty, users_calls)
      :: (unit error + host_value found) \<times> definitions \<times> (host_value \<times> string \<rightharpoonup> tableDefinition option) \<times> call list)
     = (Inr (Definition users_definition), users_cache, Map.empty, users_calls)"
proof -
  have c: "cached sample_realm Map.empty Map.empty ''data'' ''Users'' = Inr None"
    by (simp add: plain_cached [OF plain_data_users])
  from getDefinition_cache_plain [OF plain_data_users c first_call] show ?thesis
    by blast
qed

theorem identifiers_embedded_verbatim_witness:
  "cached sample_realm Map.empty Map.empty ''data''
       ([btick, CHR ''x'', btick] @ ''; DROP TABLE Users; -- '') = Inr None
   \<and> ensure_outer sample_realm Map.empty Map.empty ''data''
       = Inr (Map.empty(''data'' \<mapsto> Map.empty), Map.empty)
   \<and> on_getConnection healthy_driver [] = Inr 0
   \<and> \<not> sublist ''chatrooms'' ''data''
   \<and> \<not> sublist ''chatrooms'' ([btick, CHR ''x'', btick] @ ''; DROP TABLE Users; -- '')
   \<and> snd (snd (snd (getDefinition sample_realm healthy_driver ''data''
                  ([btick, CHR ''x'', btick] @ ''; DROP TABLE Users; -- '')
                  (Map.empty, Map.empty, [])
                  :: (unit error + host_value found) \<times> definitions
                     \<times> (host_value \<times> string \<rightharpoonup> tableDefinition option) \<times> call list)))
       = [] @ [GetConnection,
          Query 0 (''SELECT * FROM '' @ ''data'' @ ''.'' @ ([btick, CHR ''x'', btick]
                   @ ''; DROP TABLE Users; -- '') @ '' WHERE 1 = 0''),
          End 0]
   \<and> escapeIdentifier ''chat.chatrooms''
       = (if sublist ''chatrooms'' ''chat.chatrooms'' then [btick] @ ''chat.chatrooms'' @ [btick]
          else ''chat.chatrooms'')
   \<and> sublist ''chatrooms'' ''chat.chatrooms''"
proof -
  have c: "cached sample_realm Map.empty Map.empty ''data''
       ([btick, CHR ''x'', btick] @ ''; DROP TABLE Users; -- '') = Inr None"
    by (simp add: cached_def read_outer_def truthy_outer_def sample_realm_def)
  have e: "ensure_outer sample_realm Map.empty Map.empty ''data''
       = Inr (Map.empty(''data'' \<mapsto> Map.empty), Map.empty)"
    by (simp add: ensure_outer_def read_outer_def truthy_outer_def sample_realm_def)
  have g: "on_getConnection healthy_driver [] = Inr 0"
    by (simp add: healthy_driver_def)
  have n: "\<not> sublist ''chatrooms'' ''data''"
    "\<not> sublist ''chatrooms'' ([btick, CHR ''x'', btick] @ ''; DROP TABLE Users; -- '')"
    by (simp_all add: sublist_code)
  have y: "sublist ''chatrooms'' ''chat.chatrooms''"
    by (simp add: sublist_code)
  from identifiers_embedded_verbatim [of "''chat.chatrooms''" "''data''"
      "[btick, CHR ''x'', btick] @ ''; DROP TABLE Users; -- ''" "[]" sample_realm healthy_driver
      Map.empty Map.empty "(Map.empty(''data'' \<mapsto> Map.empty), Map.empty)" 0, where 'n = unit]
    c e g n y
  show ?thesis
    by blast
qed

end
